theory Spec2Isabelle
  imports Complex_Main "HOL-Library.Log_Nat"
begin

section \<open>JavaScript numbers\<close>

text \<open>
  The script computes with JavaScript numbers (IEEE 754 binary64): \<open>parseFloat\<close>,
  \<open>toFixed(2)\<close>, \<open>+\<close>, \<open>/\<close>, \<open>*\<close>, \<open>Math.round\<close> and the conversion of a
  number to a string inside a template literal. A number is modelled by its exact
  value: a finite number is \<open>Fin q\<close> with \<open>q\<close> the rational it denotes (\<open>Fin 0\<close> is
  \<open>+0\<close>), and \<open>NegZero\<close>, \<open>PosInf\<close>, \<open>NegInf\<close> and \<open>NaN\<close> are the other values.
  Every arithmetic result is rounded to the nearest binary64 value, ties to even.
\<close>

datatype jsnum = NaN | PosInf | NegInf | NegZero | Fin rat

definition pow2 :: "int \<Rightarrow> rat" where
  "pow2 e = (if 0 \<le> e then 2 ^ nat e else 1 / 2 ^ nat (- e))"

definition pow10 :: "int \<Rightarrow> rat" where
  "pow10 e = (if 0 \<le> e then 10 ^ nat e else 1 / 10 ^ nat (- e))"

text \<open>The binary exponent of a positive rational: \<open>2 ^ ilog2 q \<le> q < 2 ^ (ilog2 q + 1)\<close>.\<close>

definition ilog2 :: "rat \<Rightarrow> int" where
  "ilog2 q = (case quotient_of q of (a, b) \<Rightarrow>
     (let d = bitlen a - bitlen b in if pow2 d \<le> q then d else d - 1))"

definition round_half_even :: "rat \<Rightarrow> int" where
  "round_half_even m =
     (let f = \<lfloor>m\<rfloor>; r = m - of_int f
      in if r < 1 / 2 then f else if 1 / 2 < r then f + 1
         else if even f then f else f + 1)"

text \<open>
  Rounding a positive rational to binary64: 53 significant bits, the exponent not below
  that of the subnormal numbers; \<open>None\<close> when the rounded value reaches \<open>2 ^ 1024\<close>.
\<close>

definition round_pos :: "rat \<Rightarrow> rat option" where
  "round_pos q =
     (let e = max (ilog2 q) (- 1022);
          n = round_half_even (q / pow2 (e - 52))
      in if 1023 < e \<or> (e = 1023 \<and> n = 2 ^ 53) then None
         else Some (of_int n * pow2 (e - 52)))"

definition fround :: "rat \<Rightarrow> jsnum" where
  "fround q =
     (if q = 0 then Fin 0
      else if 0 < q then
        (case round_pos q of None \<Rightarrow> PosInf | Some r \<Rightarrow> Fin r)
      else
        (case round_pos (- q) of None \<Rightarrow> NegInf
         | Some r \<Rightarrow> if r = 0 then NegZero else Fin (- r)))"

fun is_neg :: "jsnum \<Rightarrow> bool" where
  "is_neg NegInf = True"
| "is_neg NegZero = True"
| "is_neg (Fin q) = (q < 0)"
| "is_neg _ = False"

fun is_inf :: "jsnum \<Rightarrow> bool" where
  "is_inf PosInf = True"
| "is_inf NegInf = True"
| "is_inf _ = False"

fun is_zero :: "jsnum \<Rightarrow> bool" where
  "is_zero NegZero = True"
| "is_zero (Fin q) = (q = 0)"
| "is_zero _ = False"

fun is_finite :: "jsnum \<Rightarrow> bool" where
  "is_finite NegZero = True"
| "is_finite (Fin q) = True"
| "is_finite _ = False"

fun rat_of :: "jsnum \<Rightarrow> rat" where
  "rat_of (Fin q) = q"
| "rat_of _ = 0"

definition signed_inf :: "bool \<Rightarrow> jsnum" where
  "signed_inf neg = (if neg then NegInf else PosInf)"

definition signed_zero :: "bool \<Rightarrow> jsnum" where
  "signed_zero neg = (if neg then NegZero else Fin 0)"

text \<open>The operators \<open>+\<close>, \<open>*\<close> and \<open>/\<close> on two numbers.\<close>

definition js_add :: "jsnum \<Rightarrow> jsnum \<Rightarrow> jsnum" where
  "js_add a b =
     (if a = NaN \<or> b = NaN then NaN
      else if is_inf a then (if is_inf b \<and> a \<noteq> b then NaN else a)
      else if is_inf b then b
      else if a = NegZero then b
      else if b = NegZero then a
      else fround (rat_of a + rat_of b))"

definition js_mul :: "jsnum \<Rightarrow> jsnum \<Rightarrow> jsnum" where
  "js_mul a b =
     (let neg = (is_neg a \<noteq> is_neg b)
      in if a = NaN \<or> b = NaN then NaN
         else if is_inf a \<or> is_inf b then
           (if is_zero a \<or> is_zero b then NaN else signed_inf neg)
         else if is_zero a \<or> is_zero b then signed_zero neg
         else fround (rat_of a * rat_of b))"

definition js_div :: "jsnum \<Rightarrow> jsnum \<Rightarrow> jsnum" where
  "js_div a b =
     (let neg = (is_neg a \<noteq> is_neg b)
      in if a = NaN \<or> b = NaN then NaN
         else if is_inf a then (if is_inf b then NaN else signed_inf neg)
         else if is_inf b then signed_zero neg
         else if is_zero b then (if is_zero a then NaN else signed_inf neg)
         else if is_zero a then signed_zero neg
         else fround (rat_of a / rat_of b))"

text \<open>\<open>Math.round\<close>: the nearest integer, a tie going up; the sign of a zero is kept.\<close>

fun math_round :: "jsnum \<Rightarrow> jsnum" where
  "math_round (Fin q) =
     (if q < 0 \<and> - (1 / 2) \<le> q then NegZero
      else Fin (of_int \<lfloor>q + 1 / 2\<rfloor>))"
| "math_round x = x"

subsection \<open>Decimal digits\<close>

definition digit_char :: "int \<Rightarrow> char" where
  "digit_char d = char_of (48 + d)"

function digits :: "int \<Rightarrow> string" where
  "digits n = (if n < 10 then [digit_char n] else digits (n div 10) @ [digit_char (n mod 10)])"
  by pat_completeness auto
termination
  by (relation "measure nat") auto

declare digits.simps [simp del]

definition is_digit :: "char \<Rightarrow> bool" where
  "is_digit c = (48 \<le> (of_char c :: int) \<and> (of_char c :: int) \<le> 57)"

definition digit_val :: "char \<Rightarrow> int" where
  "digit_val c = of_char c - 48"

definition int_of_digits :: "string \<Rightarrow> int" where
  "int_of_digits ds = foldl (\<lambda>acc c. 10 * acc + digit_val c) 0 ds"

subsection \<open>A number as a string\<close>

text \<open>
  \<open>Number::toString\<close> of ECMAScript: the digits are the shortest decimal that rounds
  back to the number, the closest such decimal when several have that length.
  \<open>ilog10 q\<close> is the \<open>n\<close> with \<open>10 ^ (n - 1) \<le> q < 10 ^ n\<close>, for positive \<open>q\<close>.
\<close>

definition ilog10 :: "rat \<Rightarrow> int" where
  "ilog10 q =
     (if 1 \<le> q then int (length (digits \<lfloor>q\<rfloor>))
      else (let m = int (length (digits \<lfloor>1 / q\<rfloor>))
            in if q = pow10 (1 - m) then 2 - m else 1 - m))"

text \<open>
  The decimal of \<open>k\<close> digits for \<open>x\<close>, when one rounds to \<open>x\<close>: the digits as an
  integer, and the position \<open>n\<close> of the decimal point.
\<close>

definition candidate :: "rat \<Rightarrow> int \<Rightarrow> nat \<Rightarrow> (int \<times> int) option" where
  "candidate x n0 k =
     (let scale = pow10 (n0 - int k);
          lo = \<lfloor>x / scale\<rfloor>;
          hi = lo + 1;
          ok_lo = (fround (of_int lo * scale) = Fin x);
          ok_hi = (fround (of_int hi * scale) = Fin x);
          d_lo = x - of_int lo * scale;
          d_hi = of_int hi * scale - x
      in if ok_lo \<and> ok_hi then
           (if d_lo < d_hi \<or> (d_lo = d_hi \<and> even lo) then Some (lo, n0)
            else if hi = 10 ^ k then Some (10 ^ (k - 1), n0 + 1) else Some (hi, n0))
         else if ok_lo then Some (lo, n0)
         else if ok_hi then
           (if hi = 10 ^ k then Some (10 ^ (k - 1), n0 + 1) else Some (hi, n0))
         else None)"

text \<open>
  The search for the shortest decimal, from \<open>k\<close> digits on. Seventeen digits always
  determine a binary64 value, so the first equation is never reached for one.
\<close>

fun shortest :: "nat \<Rightarrow> rat \<Rightarrow> int \<Rightarrow> nat \<Rightarrow> int \<times> int" where
  "shortest 0 x n0 k = (\<lfloor>x / pow10 (n0 - int k)\<rfloor>, n0)"
| "shortest (Suc fuel) x n0 k =
     (case candidate x n0 k of Some r \<Rightarrow> r | None \<Rightarrow> shortest fuel x n0 (Suc k))"

definition pos_to_string :: "rat \<Rightarrow> string" where
  "pos_to_string x =
     (case shortest 17 x (ilog10 x) 1 of (s, n) \<Rightarrow>
        (let ds = digits s; k = int (length ds)
         in if k \<le> n \<and> n \<le> 21 then ds @ replicate (nat (n - k)) (CHR ''0'')
            else if 0 < n \<and> n \<le> 21 then take (nat n) ds @ ''.'' @ drop (nat n) ds
            else if - 6 < n \<and> n \<le> 0 then ''0.'' @ replicate (nat (- n)) (CHR ''0'') @ ds
            else (let ex = (if 0 \<le> n - 1 then ''+'' else ''-'') @ digits \<bar>n - 1\<bar>
                  in if k = 1 then ds @ ''e'' @ ex
                     else take 1 ds @ ''.'' @ drop 1 ds @ ''e'' @ ex)))"

fun num_to_string :: "jsnum \<Rightarrow> string" where
  "num_to_string NaN = ''NaN''"
| "num_to_string PosInf = ''Infinity''"
| "num_to_string NegInf = ''-Infinity''"
| "num_to_string NegZero = ''0''"
| "num_to_string (Fin q) =
     (if q = 0 then ''0''
      else if q < 0 then ''-'' @ pos_to_string (- q)
      else pos_to_string q)"

subsection \<open>parseFloat and toFixed(2)\<close>

text \<open>
  Strings are lists of 8-bit characters, so the white space \<open>parseFloat\<close> skips is
  tab, line feed, vertical tab, form feed, carriage return, space and no-break space.
\<close>

definition is_ws :: "char \<Rightarrow> bool" where
  "is_ws c = ((of_char c :: nat) \<in> {9, 10, 11, 12, 13, 32, 160})"

definition starts_with :: "string \<Rightarrow> string \<Rightarrow> bool" where
  "starts_with p s = (take (length p) s = p)"

text \<open>The exponent part, when one is there: e or E, an optional sign, at least one digit.\<close>

definition parse_exponent :: "string \<Rightarrow> int" where
  "parse_exponent s =
     (case s of
        c # r \<Rightarrow>
          (if c = CHR ''e'' \<or> c = CHR ''E'' then
             (case r of
                d # r' \<Rightarrow>
                  (if d = CHR ''-'' then - int_of_digits (takeWhile is_digit r')
                   else if d = CHR ''+'' then int_of_digits (takeWhile is_digit r')
                   else int_of_digits (takeWhile is_digit r))
              | [] \<Rightarrow> 0)
           else 0)
      | [] \<Rightarrow> 0)"

text \<open>
  The longest prefix that is a decimal literal, after the sign: \<open>Infinity\<close>, or digits
  with an optional fraction and exponent; at least one digit before the exponent.
\<close>

definition parse_unsigned :: "string \<Rightarrow> bool \<Rightarrow> jsnum" where
  "parse_unsigned s neg =
     (if starts_with ''Infinity'' s then signed_inf neg
      else
        (let ip = takeWhile is_digit s;
             r1 = dropWhile is_digit s;
             fp = (case r1 of c # r \<Rightarrow> if c = CHR ''.'' then takeWhile is_digit r else []
                   | [] \<Rightarrow> []);
             r2 = (case r1 of c # r \<Rightarrow> if c = CHR ''.'' then dropWhile is_digit r else r1
                   | [] \<Rightarrow> [])
         in if ip = [] \<and> fp = [] then NaN
            else
              (let m = int_of_digits (ip @ fp);
                   ex = parse_exponent r2 - int (length fp)
               in if m = 0 then signed_zero neg
                  else fround ((if neg then - 1 else 1) * of_int m * pow10 ex))))"

definition parseFloat :: "string \<Rightarrow> jsnum" where
  "parseFloat s =
     (case dropWhile is_ws s of
        [] \<Rightarrow> NaN
      | c # r \<Rightarrow>
          if c = CHR ''-'' then parse_unsigned r True
          else if c = CHR ''+'' then parse_unsigned r False
          else parse_unsigned (c # r) False)"

text \<open>
  \<open>toFixed(2)\<close> of a non-negative value below \<open>10 ^ 21\<close>: the integer \<open>n\<close> with
  \<open>n / 100\<close> nearest the value (the larger of two), written with a point before its
  last two digits.
\<close>

definition fixed2 :: "rat \<Rightarrow> string" where
  "fixed2 x =
     (let n = \<lfloor>x * 100 + 1 / 2\<rfloor>;
          m = digits n;
          m' = (if length m \<le> 2 then replicate (3 - length m) (CHR ''0'') @ m else m)
      in take (length m' - 2) m' @ ''.'' @ drop (length m' - 2) m')"

fun toFixed2 :: "jsnum \<Rightarrow> string" where
  "toFixed2 (Fin q) =
     (let s = (if q < 0 then ''-'' else []); x = \<bar>q\<bar>
      in if 10 ^ 21 \<le> x then s @ num_to_string (Fin x) else s @ fixed2 x)"
| "toFixed2 NegZero = fixed2 0"
| "toFixed2 x = num_to_string x"

section \<open>JavaScript values\<close>
section \<open>JavaScript values\<close>

text \<open>
  The values the script handles are those a JSON body parses to, with \<open>undefined\<close>
  for a property that is not there. An object is the list of its own properties; the
  first entry of a name is the property's value. Such a value has no method of its
  own and no getter: its own properties are data, and what it inherits is what
  \<open>Object.prototype\<close> and \<open>Array.prototype\<close> give.
\<close>

datatype jsval =
  Undefined
| Null
| Bool bool
| Num jsnum
| Str string
| Arr "jsval list"
| Obj "(string \<times> jsval) list"

text \<open>What a condition, \<open>!\<close> and \<open>||\<close> test.\<close>

fun truthy :: "jsval \<Rightarrow> bool" where
  "truthy Undefined = False"
| "truthy Null = False"
| "truthy (Bool b) = b"
| "truthy (Num x) = (if x = NaN then False else if is_zero x then False else True)"
| "truthy (Str s) = (if s = [] then False else True)"
| "truthy (Arr xs) = True"
| "truthy (Obj fs) = True"

definition js_or :: "jsval \<Rightarrow> jsval \<Rightarrow> jsval" where
  "js_or a b = (if truthy a then a else b)"

fun isArray :: "jsval \<Rightarrow> bool" where
  "isArray (Arr xs) = True"
| "isArray _ = False"

fun elems :: "jsval \<Rightarrow> jsval list" where
  "elems (Arr xs) = xs"
| "elems _ = []"

subsection \<open>Exceptions\<close>

text \<open>
  A thrown exception is a value: \<open>Error\<close> for \<open>new Error(message)\<close>, \<open>TypeError\<close> for
  what the language raises on a property read of \<open>null\<close> or \<open>undefined\<close>, on a call of
  something that is no function, on the conversion of an object that has no primitive
  value and on a failed \<open>fetch\<close>, \<open>SyntaxError\<close> for a body that is no JSON. The
  wording of a \<open>TypeError\<close> is the engine's; V8's is used.
\<close>

datatype js_error = Error string | TypeError string | SyntaxError string

fun message :: "js_error \<Rightarrow> string" where
  "message (Error m) = m"
| "message (TypeError m) = m"
| "message (SyntaxError m) = m"

definition cannot_read :: "string \<Rightarrow> string \<Rightarrow> js_error" where
  "cannot_read what name =
     TypeError (''Cannot read properties of '' @ what @ '' (reading '' @ [CHR 0x27] @ name @ [CHR 0x27] @ '')'')"

definition cannot_convert :: js_error where
  "cannot_convert = TypeError ''Cannot convert object to primitive value''"

text \<open>
  A property read \<open>v.name\<close> or \<open>v['name']\<close>, for the names the script reads (none of
  them is inherited from a prototype): it throws on \<open>null\<close> and \<open>undefined\<close>, and it is
  \<open>undefined\<close> on a primitive value, on an array and on an object without the name.
\<close>

fun get_prop :: "jsval \<Rightarrow> string \<Rightarrow> js_error + jsval" where
  "get_prop Undefined name = Inl (cannot_read ''undefined'' name)"
| "get_prop Null name = Inl (cannot_read ''null'' name)"
| "get_prop (Obj fs) name = Inr (case map_of fs name of None \<Rightarrow> Undefined | Some v \<Rightarrow> v)"
| "get_prop v name = Inr Undefined"

subsection \<open>The string of a value\<close>

text \<open>
  \<open>Array.prototype.join\<close> on the strings of the elements, with the comma as
  separator: the first element whose conversion throws ends it.
\<close>

fun join_comma :: "(js_error + string) list \<Rightarrow> js_error + string" where
  "join_comma [] = Inr []"
| "join_comma [x] = x"
| "join_comma (x # y # r) =
     (case x of
        Inl e \<Rightarrow> Inl e
      | Inr s \<Rightarrow> (case join_comma (y # r) of Inl e \<Rightarrow> Inl e | Inr t \<Rightarrow> Inr (s @ '','' @ t)))"

text \<open>
  \<open>ToString\<close>: what a template literal, \<open>parseFloat\<close> and \<open>new Error\<close> make of a
  value. An object is converted by its \<open>toString\<close> method. An object from a JSON body
  inherits the one of \<open>Object.prototype\<close>, which gives \<open>[object Object]\<close>; when the
  object has a property \<open>toString\<close> of its own, that property hides the method and is
  no function, \<open>valueOf\<close> (its own, no function either, or the inherited one, which
  returns the object) gives no primitive value, and the conversion throws a
  \<open>TypeError\<close>. An array joins the strings of its elements with commas, \<open>null\<close> and
  \<open>undefined\<close> elements giving the empty string, and throws when an element does.
\<close>

fun to_string :: "jsval \<Rightarrow> js_error + string" where
  "to_string Undefined = Inr ''undefined''"
| "to_string Null = Inr ''null''"
| "to_string (Bool b) = Inr (if b then ''true'' else ''false'')"
| "to_string (Num x) = Inr (num_to_string x)"
| "to_string (Str s) = Inr s"
| "to_string (Arr xs) =
     join_comma (map (\<lambda>v. case v of Undefined \<Rightarrow> Inr [] | Null \<Rightarrow> Inr [] | _ \<Rightarrow> to_string v) xs)"
| "to_string (Obj fs) =
     (if map_of fs ''toString'' = None then Inr ''[object Object]'' else Inl cannot_convert)"

text \<open>
  \<open>throw new Error(v)\<close>, as the exception it ends with: an \<open>Error\<close> whose message is
  the string of \<open>v\<close> (empty for \<open>undefined\<close>), or the exception of the conversion.
\<close>

definition new_Error :: "jsval \<Rightarrow> js_error" where
  "new_Error v =
     (case v of
        Undefined \<Rightarrow> Error []
      | _ \<Rightarrow> (case to_string v of Inl e \<Rightarrow> e | Inr m \<Rightarrow> Error m))"

text \<open>
  \<open>s.replace(pattern, replacement)\<close> with a string pattern and a replacement without
  a dollar sign (the script's is empty): the first occurrence only.
\<close>

fun str_replace :: "string \<Rightarrow> string \<Rightarrow> string \<Rightarrow> string" where
  "str_replace pat rep [] = (if pat = [] then rep else [])"
| "str_replace pat rep (c # cs) =
     (if starts_with pat (c # cs) then rep @ drop (length pat) (c # cs)
      else c # str_replace pat rep cs)"

subsection \<open>The number of a value, and the operators on values\<close>

text \<open>
  \<open>ToPrimitive\<close>: an array or object from a JSON body has only the inherited
  \<open>valueOf\<close>, which returns the object itself, so its primitive value is its string.
\<close>

definition to_primitive :: "jsval \<Rightarrow> js_error + jsval" where
  "to_primitive v =
     (case v of
        Arr xs \<Rightarrow> (case to_string v of Inl e \<Rightarrow> Inl e | Inr s \<Rightarrow> Inr (Str s))
      | Obj fs \<Rightarrow> (case to_string v of Inl e \<Rightarrow> Inl e | Inr s \<Rightarrow> Inr (Str s))
      | _ \<Rightarrow> Inr v)"

text \<open>
  The number of a string: white space around it is dropped; the empty string is \<open>+0\<close>;
  the rest has to be, as a whole, a decimal literal with an optional sign (\<open>Infinity\<close>,
  or digits with an optional fraction and exponent) or an unsigned literal in radix 16,
  8 or 2 (\<open>0x\<close>, \<open>0o\<close>, \<open>0b\<close>); every other string is \<open>NaN\<close>.
\<close>

definition trim_ws :: "string \<Rightarrow> string" where
  "trim_ws s = rev (dropWhile is_ws (rev (dropWhile is_ws s)))"

text \<open>The value of a digit or letter as a digit, 36 for another character.\<close>

definition radix_value :: "char \<Rightarrow> int" where
  "radix_value c =
     (let n = (of_char c :: int)
      in if 48 \<le> n \<and> n \<le> 57 then n - 48
         else if 97 \<le> n \<and> n \<le> 122 then n - 87
         else if 65 \<le> n \<and> n \<le> 90 then n - 55
         else 36)"

definition radix_literal :: "int \<Rightarrow> string \<Rightarrow> jsnum" where
  "radix_literal r ds =
     (if ds \<noteq> [] \<and> list_all (\<lambda>c. radix_value c < r) ds
      then fround (of_int (foldl (\<lambda>acc c. r * acc + radix_value c) 0 ds))
      else NaN)"

text \<open>A digit before or after the point.\<close>

definition has_mantissa :: "string \<Rightarrow> bool" where
  "has_mantissa s =
     (takeWhile is_digit s \<noteq> []
      \<or> (case dropWhile is_digit s of
            c # r \<Rightarrow> c = CHR ''.'' \<and> takeWhile is_digit r \<noteq> []
          | [] \<Rightarrow> False))"

text \<open>What follows the digits and the fraction.\<close>

definition decimal_tail :: "string \<Rightarrow> string" where
  "decimal_tail s =
     (case dropWhile is_digit s of
        c # r \<Rightarrow> if c = CHR ''.'' then dropWhile is_digit r else c # r
      | [] \<Rightarrow> [])"

text \<open>Nothing, or a whole exponent part: e or E, an optional sign, digits.\<close>

definition exponent_part :: "string \<Rightarrow> bool" where
  "exponent_part s =
     (case s of
        [] \<Rightarrow> True
      | c # r \<Rightarrow>
          (c = CHR ''e'' \<or> c = CHR ''E'')
          \<and> (let ds = (case r of
                         d # r' \<Rightarrow> if d = CHR ''-'' \<or> d = CHR ''+'' then r' else r
                       | [] \<Rightarrow> [])
             in ds \<noteq> [] \<and> list_all is_digit ds))"

definition str_decimal :: "string \<Rightarrow> bool \<Rightarrow> jsnum" where
  "str_decimal s neg =
     (if s = ''Infinity'' then signed_inf neg
      else if has_mantissa s \<and> exponent_part (decimal_tail s) then parse_unsigned s neg
      else NaN)"

definition string_to_number :: "string \<Rightarrow> jsnum" where
  "string_to_number s =
     (let t = trim_ws s
      in case t of
           [] \<Rightarrow> Fin 0
         | c # r \<Rightarrow>
             if c = CHR ''-'' then str_decimal r True
             else if c = CHR ''+'' then str_decimal r False
             else if starts_with ''0x'' t \<or> starts_with ''0X'' t then radix_literal 16 (drop 2 t)
             else if starts_with ''0o'' t \<or> starts_with ''0O'' t then radix_literal 8 (drop 2 t)
             else if starts_with ''0b'' t \<or> starts_with ''0B'' t then radix_literal 2 (drop 2 t)
             else str_decimal t False)"

text \<open>
  \<open>ToNumber\<close> of a primitive value (the last equation is never used: an array or
  object is made primitive first).
\<close>

fun to_number :: "jsval \<Rightarrow> jsnum" where
  "to_number Undefined = NaN"
| "to_number Null = Fin 0"
| "to_number (Bool b) = (if b then Fin 1 else Fin 0)"
| "to_number (Num x) = x"
| "to_number (Str s) = string_to_number s"
| "to_number v = NaN"

definition to_numeric :: "jsval \<Rightarrow> js_error + jsnum" where
  "to_numeric v = (case to_primitive v of Inl e \<Rightarrow> Inl e | Inr p \<Rightarrow> Inr (to_number p))"

fun is_string :: "jsval \<Rightarrow> bool" where
  "is_string (Str s) = True"
| "is_string v = False"

text \<open>
  The operator \<open>+\<close> on two values: both are made primitive, the left one first; with
  a string among the two the result is the concatenation of their strings, otherwise
  the sum of their numbers.
\<close>

definition js_plus :: "jsval \<Rightarrow> jsval \<Rightarrow> js_error + jsval" where
  "js_plus a b =
     (case to_primitive a of
        Inl e \<Rightarrow> Inl e
      | Inr pa \<Rightarrow>
          (case to_primitive b of
             Inl e \<Rightarrow> Inl e
           | Inr pb \<Rightarrow>
               if is_string pa \<or> is_string pb then
                 (case to_string pa of
                    Inl e \<Rightarrow> Inl e
                  | Inr sa \<Rightarrow>
                      (case to_string pb of Inl e \<Rightarrow> Inl e | Inr sb \<Rightarrow> Inr (Str (sa @ sb))))
               else Inr (Num (js_add (to_number pa) (to_number pb)))))"

section \<open>The document\<close>

text \<open>
  The script writes into six elements, found by their ids: the bodies of the gainers and
  losers tables, the breadth widget, the chart canvas, the news list and the blogs
  container. Each is \<open>None\<close> when the page has no such element. An element other than
  the canvas holds its children: the markup last assigned to \<open>innerHTML\<close>, kept as
  written, and the elements appended since. The canvas is blank or shows the line chart
  of a configuration. The six elements are taken to be distinct and not nested in one
  another. What \<open>console.error\<close> prints is not part of the model.
\<close>

datatype node =
  Markup string
| Element (tag: string) (className: string) (innerHTML: string)

datatype canvas = Blank | LineChart jsval

record dom =
  gainersTableBody :: "node list option"
  losersTableBody :: "node list option"
  breadthWidget :: "node list option"
  marketChart :: "canvas option"
  newsFeedList :: "node list option"
  blogsContainer :: "node list option"

text \<open>\<open>el.innerHTML = s\<close>: the children are replaced; the empty string leaves none.\<close>

definition set_innerHTML :: "string \<Rightarrow> node list" where
  "set_innerHTML s = (if s = [] then [] else [Markup s])"

text \<open>\<open>if (el) el.innerHTML = s\<close>.\<close>

definition assign_if_present :: "node list option \<Rightarrow> string \<Rightarrow> node list option" where
  "assign_if_present el s = (case el of None \<Rightarrow> None | Some old \<Rightarrow> Some (set_innerHTML s))"

text \<open>
  \<open>xs.forEach(item => el.appendChild(create(item)))\<close>: the elements are appended in
  order, and an exception in \<open>create\<close> ends the loop with what was appended so far.
\<close>

fun forEach_append :: "(jsval \<Rightarrow> js_error + node) \<Rightarrow> jsval list \<Rightarrow> node list
    \<Rightarrow> node list \<times> js_error option" where
  "forEach_append create [] children = (children, None)"
| "forEach_append create (item # items) children =
     (case create item of
        Inl e \<Rightarrow> (children, Some e)
      | Inr el \<Rightarrow> forEach_append create items (children @ [el]))"

text \<open>
  A substitution \<open>${item.name}\<close> of a template literal: the property is read and its
  value converted to a string, before the next substitution is evaluated.
\<close>

definition prop_string :: "jsval \<Rightarrow> string \<Rightarrow> js_error + string" where
  "prop_string item name =
     (case get_prop item name of Inl e \<Rightarrow> Inl e | Inr v \<Rightarrow> to_string v)"

section \<open>Rendering functions\<close>

subsection \<open>renderTopMovers\<close>

definition movers_unavailable :: string where
  \<open>movers_unavailable = ''<tr><td colspan="3">Data unavailable.</td></tr>''\<close>

text \<open>
  The template literal of \<open>createTableRow\<close>, on the strings of the three fields. The
  template literals of the script are written here as they stand in the source, with
  their line breaks and indentation.
\<close>

definition row_html :: "string \<Rightarrow> string \<Rightarrow> string \<Rightarrow> bool \<Rightarrow> string" where
  \<open>row_html symbol price change isGainer =
     ''
                <td class="px-6 py-4 whitespace-nowrap text-sm font-medium text-gray-900">'' @ symbol @ ''</td>
                <td class="px-6 py-4 whitespace-nowrap text-sm text-gray-500">$'' @ price @ ''</td>
                <td class="px-6 py-4 whitespace-nowrap text-sm '' @ (if isGainer then ''price-up'' else ''price-down'') @ ''">'' @ change @ ''%</td>
            ''\<close>

definition createTableRow :: "jsval \<Rightarrow> bool \<Rightarrow> js_error + node" where
  "createTableRow item isGainer =
     (case prop_string item ''symbol'' of
        Inl e \<Rightarrow> Inl e
      | Inr symbol \<Rightarrow>
          (case prop_string item ''price'' of
             Inl e \<Rightarrow> Inl e
           | Inr price \<Rightarrow>
               (case prop_string item ''change'' of
                  Inl e \<Rightarrow> Inl e
                | Inr change \<Rightarrow>
                    Inr (Element ''tr'' [] (row_html symbol price change isGainer)))))"

text \<open>
  \<open>xs.forEach(item => body?.appendChild(createTableRow(item, isGainer)))\<close>: without the
  table body the optional call is skipped with its argument, so no row is created.
\<close>

definition append_rows :: "node list option \<Rightarrow> jsval list \<Rightarrow> bool
    \<Rightarrow> node list option \<times> js_error option" where
  "append_rows body items isGainer =
     (case body of
        None \<Rightarrow> (None, None)
      | Some children \<Rightarrow>
          (case forEach_append (\<lambda>item. createTableRow item isGainer) items children of
             (children', err) \<Rightarrow> (Some children', err)))"

text \<open>The part of \<open>renderTopMovers\<close> after the check of its argument.\<close>

definition render_rows :: "jsval list \<Rightarrow> jsval list \<Rightarrow> dom \<Rightarrow> dom \<times> js_error option" where
  "render_rows gainers losers d =
     (let d1 = d\<lparr>gainersTableBody := assign_if_present (gainersTableBody d) [],
                  losersTableBody := assign_if_present (losersTableBody d) []\<rparr>
      in case append_rows (gainersTableBody d1) gainers True of
           (g, Some e) \<Rightarrow> (d1\<lparr>gainersTableBody := g\<rparr>, Some e)
         | (g, None) \<Rightarrow>
             (case append_rows (losersTableBody d1) losers False of
                (l, err) \<Rightarrow> (d1\<lparr>gainersTableBody := g, losersTableBody := l\<rparr>, err)))"

definition movers_invalid :: "dom \<Rightarrow> dom" where
  "movers_invalid d =
     d\<lparr>gainersTableBody := assign_if_present (gainersTableBody d) movers_unavailable,
       losersTableBody := assign_if_present (losersTableBody d) movers_unavailable\<rparr>"

text \<open>
  The result is the document after the call and the exception the call ended with, if
  any (what was written before the exception stays written).
\<close>

definition renderTopMovers :: "jsval \<Rightarrow> dom \<Rightarrow> dom \<times> js_error option" where
  "renderTopMovers moversData d =
     (if truthy moversData then
        (case get_prop moversData ''gainers'' of
           Inl e \<Rightarrow> (d, Some e)
         | Inr gainers \<Rightarrow>
             if isArray gainers then
               (case get_prop moversData ''losers'' of
                  Inl e \<Rightarrow> (d, Some e)
                | Inr losers \<Rightarrow>
                    if isArray losers then render_rows (elems gainers) (elems losers) d
                    else (movers_invalid d, None))
             else (movers_invalid d, None))
      else (movers_invalid d, None))"

subsection \<open>renderMarketBreadth\<close>

definition breadth_unavailable :: string where
  \<open>breadth_unavailable = ''<p class="col-span-3">Data unavailable.</p>''\<close>

text \<open>
  \<open>breadthData.advancing + breadthData.declining + breadthData.unchanged\<close>, from left
  to right.
\<close>

definition breadth_total :: "jsval \<Rightarrow> js_error + jsval" where
  "breadth_total breadthData =
     (case get_prop breadthData ''advancing'' of
        Inl e \<Rightarrow> Inl e
      | Inr adv \<Rightarrow>
          (case get_prop breadthData ''declining'' of
             Inl e \<Rightarrow> Inl e
           | Inr dec \<Rightarrow>
               (case js_plus adv dec of
                  Inl e \<Rightarrow> Inl e
                | Inr s \<Rightarrow>
                    (case get_prop breadthData ''unchanged'' of
                       Inl e \<Rightarrow> Inl e
                     | Inr unch \<Rightarrow> js_plus s unch))))"

text \<open>\<open>Math.round((count / total) * 100)\<close> on two numbers.\<close>

definition percentage :: "jsnum \<Rightarrow> jsnum \<Rightarrow> jsnum" where
  "percentage count tot = math_round (js_mul (js_div count tot) (Fin 100))"

text \<open>
  The substitution \<open>${Math.round((breadthData.name / total) * 100)}\<close>: the operator
  \<open>/\<close> takes the numbers of its two operands, the left one first.
\<close>

definition share :: "jsval \<Rightarrow> string \<Rightarrow> jsval \<Rightarrow> js_error + string" where
  "share breadthData name tot =
     (case get_prop breadthData name of
        Inl e \<Rightarrow> Inl e
      | Inr count \<Rightarrow>
          (case to_numeric count of
             Inl e \<Rightarrow> Inl e
           | Inr c \<Rightarrow>
               (case to_numeric tot of
                  Inl e \<Rightarrow> Inl e
                | Inr t \<Rightarrow> Inr (num_to_string (percentage c t)))))"

text \<open>The template literal of the widget, on the strings of the three percentages.\<close>

definition breadth_html :: "string \<Rightarrow> string \<Rightarrow> string \<Rightarrow> string" where
  \<open>breadth_html adv dec unch =
     ''
            <div class="flex flex-col items-center">
                <p class="text-sm font-medium text-gray-500">Advancing</p>
                <span class="text-lg font-bold indicator-up">'' @ adv @ ''%</span>
            </div>
            <div class="flex flex-col items-center">
                <p class="text-sm font-medium text-gray-500">Declining</p>
                <span class="text-lg font-bold indicator-down">'' @ dec @ ''%</span>
            </div>
            <div class="flex flex-col items-center">
                <p class="text-sm font-medium text-gray-500">Unchanged</p>
                <span class="text-lg font-bold text-gray-600">'' @ unch @ ''%</span>
            </div>
        ''\<close>

definition renderMarketBreadth :: "jsval \<Rightarrow> dom \<Rightarrow> dom \<times> js_error option" where
  "renderMarketBreadth breadthData d =
     (case breadthWidget d of
        None \<Rightarrow> (d, None)
      | Some old \<Rightarrow>
          if truthy breadthData then
            (case breadth_total breadthData of
               Inl e \<Rightarrow> (d, Some e)
             | Inr tot \<Rightarrow>
                 (case share breadthData ''advancing'' tot of
                    Inl e \<Rightarrow> (d, Some e)
                  | Inr adv \<Rightarrow>
                      (case share breadthData ''declining'' tot of
                         Inl e \<Rightarrow> (d, Some e)
                       | Inr dec \<Rightarrow>
                           (case share breadthData ''unchanged'' tot of
                              Inl e \<Rightarrow> (d, Some e)
                            | Inr unch \<Rightarrow>
                                (d\<lparr>breadthWidget :=
                                     Some (set_innerHTML (breadth_html adv dec unch))\<rparr>,
                                 None)))))
          else (d\<lparr>breadthWidget := Some (set_innerHTML breadth_unavailable)\<rparr>, None))"

subsection \<open>renderMarketChart\<close>




subsection \<open>renderInsights\<close>




section \<open>Fetching the market data\<close>

definition API_KEY :: string where
  "API_KEY = ''EI339Y34FX1BR93U''"

text \<open>
  \<open>item.change_percentage.replace('%', '')\<close>: only a string has the method; the read
  of \<open>replace\<close> throws on \<open>null\<close> and \<open>undefined\<close>, the call on every other value.
\<close>

definition replace_percent :: "jsval \<Rightarrow> js_error + string" where
  "replace_percent cp =
     (case cp of
        Str s \<Rightarrow> Inr (str_replace ''%'' [] s)
      | Undefined \<Rightarrow> Inl (cannot_read ''undefined'' ''replace'')
      | Null \<Rightarrow> Inl (cannot_read ''null'' ''replace'')
      | _ \<Rightarrow> Inl (TypeError ''item.change_percentage.replace is not a function''))"

text \<open>
  The function mapped over \<open>top_gainers\<close> and \<open>top_losers\<close>:
  \<open>item => ({symbol: item.ticker, price: parseFloat(item.price).toFixed(2),
  change: parseFloat(item.change_percentage.replace('%', '')).toFixed(2)})\<close>.
  \<open>parseFloat\<close> converts its argument to a string first.
\<close>

definition normalize_item :: "jsval \<Rightarrow> js_error + jsval" where
  "normalize_item item =
     (case get_prop item ''ticker'' of
        Inl e \<Rightarrow> Inl e
      | Inr ticker \<Rightarrow>
          (case prop_string item ''price'' of
             Inl e \<Rightarrow> Inl e
           | Inr price \<Rightarrow>
               (case get_prop item ''change_percentage'' of
                  Inl e \<Rightarrow> Inl e
                | Inr cp \<Rightarrow>
                    (case replace_percent cp of
                       Inl e \<Rightarrow> Inl e
                     | Inr change \<Rightarrow>
                         Inr (Obj [(''symbol'', ticker),
                                   (''price'', Str (toFixed2 (parseFloat price))),
                                   (''change'', Str (toFixed2 (parseFloat change)))])))))"

text \<open>\<open>xs.map(f)\<close>, ended by the first exception.\<close>

fun map_items :: "(jsval \<Rightarrow> js_error + jsval) \<Rightarrow> jsval list \<Rightarrow> js_error + jsval list" where
  "map_items f [] = Inr []"
| "map_items f (item # items) =
     (case f item of
        Inl e \<Rightarrow> Inl e
      | Inr y \<Rightarrow> (case map_items f items of Inl e \<Rightarrow> Inl e | Inr ys \<Rightarrow> Inr (y # ys)))"

definition mockBreadthData :: jsval where
  "mockBreadthData =
     Obj [(''advancing'', Num (Fin 2500)), (''declining'', Num (Fin 500)),
          (''unchanged'', Num (Fin 100))]"

definition movers_object :: "jsval list \<Rightarrow> jsval list \<Rightarrow> jsval" where
  "movers_object gainersData losersData =
     Obj [(''gainers'', Arr gainersData), (''losers'', Arr losersData)]"

text \<open>
  The condition \<open>moversData && Array.isArray(moversData.top_gainers) &&
  Array.isArray(moversData.top_losers)\<close>: the two arrays when it holds.
\<close>

definition top_arrays :: "jsval \<Rightarrow> js_error + (jsval list \<times> jsval list) option" where
  "top_arrays moversData =
     (if truthy moversData then
        (case get_prop moversData ''top_gainers'' of
           Inl e \<Rightarrow> Inl e
         | Inr top_gainers \<Rightarrow>
             if isArray top_gainers then
               (case get_prop moversData ''top_losers'' of
                  Inl e \<Rightarrow> Inl e
                | Inr top_losers \<Rightarrow>
                    if isArray top_losers then Inr (Some (elems top_gainers, elems top_losers))
                    else Inr None)
             else Inr None)
      else Inr None)"

text \<open>
  What follows the check for an upstream error in the \<open>try\<close> block, the same in both
  copies of the script: the \<open>if\<close> on the two arrays, which renders the movers, and the
  rendering of the mock breadth.
\<close>

definition render_movers_of :: "jsval \<Rightarrow> dom \<Rightarrow> dom \<times> js_error option" where
  "render_movers_of moversData d =
     (case top_arrays moversData of
        Inl e \<Rightarrow> (d, Some e)
      | Inr (Some (top_gainers, top_losers)) \<Rightarrow>
          (case map_items normalize_item top_gainers of
             Inl e \<Rightarrow> (d, Some e)
           | Inr gainersData \<Rightarrow>
               (case map_items normalize_item top_losers of
                  Inl e \<Rightarrow> (d, Some e)
                | Inr losersData \<Rightarrow>
                    renderTopMovers (movers_object gainersData losersData) d))
      | Inr None \<Rightarrow> renderTopMovers (movers_object [] []) d)"

definition render_response :: "jsval \<Rightarrow> dom \<Rightarrow> dom \<times> js_error option" where
  "render_response moversData d =
     (case render_movers_of moversData d of
        (d1, Some e) \<Rightarrow> (d1, Some e)
      | (d1, None) \<Rightarrow> renderMarketBreadth mockBreadthData d1)"

subsection \<open>The script of src/js/script.js\<close>

text \<open>
  The argument \<open>response\<close> is what the two \<open>await\<close>s give: \<open>Inl e\<close> when \<open>fetch\<close> or
  \<open>json()\<close> rejects with \<open>e\<close>, \<open>Inr v\<close> when the body parses to \<open>v\<close>. \<open>fetch_try\<close> is
  the \<open>try\<close> block and \<open>show_error\<close> the \<open>catch\<close> block.
\<close>

definition fetch_try :: "js_error + jsval \<Rightarrow> dom \<Rightarrow> dom \<times> js_error option" where
  "fetch_try response d =
     (if API_KEY = ''YOUR_ALPHA_VANTAGE_API_KEY'' then
        (d, Some (Error ''Please provide a valid API key.''))
      else
        (case response of
           Inl e \<Rightarrow> (d, Some e)
         | Inr moversData \<Rightarrow>
             (case get_prop moversData ''Error Message'' of
                Inl e \<Rightarrow> (d, Some e)
              | Inr error_message \<Rightarrow>
                  (case get_prop moversData ''Note'' of
                     Inl e \<Rightarrow> (d, Some e)
                   | Inr note \<Rightarrow>
                       if truthy (js_or error_message note) then
                         (d, Some (new_Error (js_or error_message note)))
                       else render_response moversData d))))"

definition show_error :: "js_error \<Rightarrow> dom \<Rightarrow> dom" where
  \<open>show_error e d =
     d\<lparr>gainersTableBody := assign_if_present (gainersTableBody d)
          (''<tr><td colspan="3">'' @ message e @ ''</td></tr>''),
       losersTableBody := assign_if_present (losersTableBody d)
          (''<tr><td colspan="3">'' @ message e @ ''</td></tr>''),
       breadthWidget := assign_if_present (breadthWidget d)
          (''<p>'' @ message e @ ''</p>'')\<rparr>\<close>

definition fetchMarketData :: "js_error + jsval \<Rightarrow> dom \<Rightarrow> dom" where
  "fetchMarketData response d =
     (case fetch_try response d of
        (d1, None) \<Rightarrow> d1
      | (d1, Some e) \<Rightarrow> show_error e d1)"

subsection \<open>The copy of the script in src/unnamed/part_000\<close>

text \<open>
  The rendering functions of this copy are the same. Its \<open>fetchMarketData\<close> throws a
  fixed message on an upstream error (after logging the upstream one), and its \<open>catch\<close>
  block writes other markup and has a fallback for an empty message.
\<close>

definition api_error_text :: string where
  "api_error_text =
     ''API returned an error. Please check your API key or a rate limit may have been exceeded.''"

definition fetch_try_part0 :: "js_error + jsval \<Rightarrow> dom \<Rightarrow> dom \<times> js_error option" where
  \<open>fetch_try_part0 response d =
     (if API_KEY = ''YOUR_ALPHA_VANTAGE_API_KEY'' then
        (d, Some (Error
          ''Please replace "YOUR_ALPHA_VANTAGE_API_KEY" with a valid key from Alpha Vantage.''))
      else
        (case response of
           Inl e \<Rightarrow> (d, Some e)
         | Inr moversData \<Rightarrow>
             (case get_prop moversData ''Error Message'' of
                Inl e \<Rightarrow> (d, Some e)
              | Inr error_message \<Rightarrow>
                  (case get_prop moversData ''Note'' of
                     Inl e \<Rightarrow> (d, Some e)
                   | Inr note \<Rightarrow>
                       if truthy (js_or error_message note) then
                         (d, Some (Error api_error_text))
                       else render_response moversData d))))\<close>

definition message_or_default :: "js_error \<Rightarrow> string" where
  "message_or_default e = (if message e = [] then ''Failed to load data.'' else message e)"

definition show_error_part0 :: "js_error \<Rightarrow> dom \<Rightarrow> dom" where
  \<open>show_error_part0 e d =
     d\<lparr>gainersTableBody := assign_if_present (gainersTableBody d)
          (''<tr><td colspan="3" class="px-6 py-4 whitespace-nowrap text-sm text-gray-500">''
           @ message_or_default e @ ''</td></tr>''),
       losersTableBody := assign_if_present (losersTableBody d)
          (''<tr><td colspan="3" class="px-6 py-4 whitespace-nowrap text-sm text-gray-500">''
           @ message_or_default e @ ''</td></tr>''),
       breadthWidget := assign_if_present (breadthWidget d)
          (''<p class="col-span-3 text-red-500">'' @ message_or_default e @ ''</p>'')\<rparr>\<close>

definition fetchMarketData_part0 :: "js_error + jsval \<Rightarrow> dom \<Rightarrow> dom" where
  "fetchMarketData_part0 response d =
     (case fetch_try_part0 response d of
        (d1, None) \<Rightarrow> d1
      | (d1, Some e) \<Rightarrow> show_error_part0 e d1)"

section \<open>Notions the properties are stated with\<close>

text \<open>A page that has all six elements, each without children, the canvas blank.\<close>

definition empty_page :: dom where
  "empty_page =
     \<lparr>gainersTableBody = Some [], losersTableBody = Some [], breadthWidget = Some [],
      marketChart = Some Blank, newsFeedList = Some [], blogsContainer = Some []\<rparr>"

fun nullish :: "jsval \<Rightarrow> bool" where
  "nullish Undefined = True"
| "nullish Null = True"
| "nullish v = False"

fun is_record :: "jsval \<Rightarrow> bool" where
  "is_record (Obj fs) = True"
| "is_record v = False"

text \<open>The value of a property of an object, \<open>undefined\<close> without it.\<close>

fun field :: "jsval \<Rightarrow> string \<Rightarrow> jsval" where
  "field (Obj fs) name = (case map_of fs name of None \<Rightarrow> Undefined | Some v \<Rightarrow> v)"
| "field v name = Undefined"

text \<open>
  A value that converts to a string, and the string it converts to. Every string,
  number and boolean, \<open>null\<close> and \<open>undefined\<close> convert; an object does unless it has a
  property \<open>toString\<close>, an array unless an element does not.
\<close>

definition has_string :: "jsval \<Rightarrow> bool" where
  "has_string v = (case to_string v of Inl e \<Rightarrow> False | Inr s \<Rightarrow> True)"

definition string_of :: "jsval \<Rightarrow> string" where
  "string_of v = (case to_string v of Inl e \<Rightarrow> [] | Inr s \<Rightarrow> s)"

text \<open>
  A record of a movers result: an object whose \<open>symbol\<close>, \<open>price\<close> and \<open>change\<close>
  convert to strings, as those of the records of the specification, which are strings.
\<close>

definition mover_record :: "jsval \<Rightarrow> bool" where
  "mover_record item =
     (is_record item \<and> has_string (field item ''symbol'') \<and> has_string (field item ''price'')
      \<and> has_string (field item ''change''))"

text \<open>The row \<open>createTableRow\<close> makes of a record.\<close>

definition table_row :: "jsval \<Rightarrow> bool \<Rightarrow> node" where
  "table_row item isGainer =
     Element ''tr'' []
       (row_html (string_of (field item ''symbol'')) (string_of (field item ''price''))
          (string_of (field item ''change'')) isGainer)"

text \<open>
  An argument that passes the check of \<open>renderTopMovers\<close>: an object whose \<open>gainers\<close>
  and \<open>losers\<close> are arrays.
\<close>

fun well_shaped :: "jsval \<Rightarrow> bool" where
  "well_shaped (Obj fs) = (isArray (field (Obj fs) ''gainers'') \<and> isArray (field (Obj fs) ''losers''))"
| "well_shaped v = False"

text \<open>The three elements of the market data, present or not as the flags say.\<close>

definition without_sinks :: "bool \<Rightarrow> bool \<Rightarrow> bool \<Rightarrow> dom \<Rightarrow> dom" where
  "without_sinks no_gainers no_losers no_breadth d =
     d\<lparr>gainersTableBody := (if no_gainers then None else gainersTableBody d),
       losersTableBody := (if no_losers then None else losersTableBody d),
       breadthWidget := (if no_breadth then None else breadthWidget d)\<rparr>"

text \<open>
  A string with exactly two decimal digits: an optional minus sign, at least one digit,
  a point, two digits.
\<close>

definition two_decimals :: "string \<Rightarrow> bool" where
  "two_decimals s =
     (let u = (case s of c # r \<Rightarrow> if c = CHR ''-'' then r else s | [] \<Rightarrow> s)
      in case rev u of
           d2 # d1 # p # ip \<Rightarrow>
             is_digit d2 \<and> is_digit d1 \<and> p = CHR ''.'' \<and> ip \<noteq> [] \<and> list_all is_digit ip
         | _ \<Rightarrow> False)"

text \<open>A number that \<open>toFixed(2)\<close> writes in fixed notation: finite and below \<open>10 ^ 21\<close>.\<close>

fun fixed_range :: "jsnum \<Rightarrow> bool" where
  "fixed_range (Fin q) = (\<bar>q\<bar> < 10 ^ 21)"
| "fixed_range NegZero = True"
| "fixed_range x = False"

text \<open>
  The specification's wording of the change field: a trailing percent sign is stripped,
  the rest parsed and formatted. It is compared with what \<open>normalize_item\<close> computes.
\<close>

definition strip_trailing_percent :: "string \<Rightarrow> string" where
  "strip_trailing_percent s = (if s \<noteq> [] \<and> last s = CHR ''%'' then butlast s else s)"

definition spec_change :: "string \<Rightarrow> string" where
  "spec_change s = toFixed2 (parseFloat (strip_trailing_percent s))"

subsection \<open>Example inputs\<close>

text \<open>The raw entry of the specification's example, and the record it is mapped to.\<close>

definition example_entry :: jsval where
  "example_entry =
     Obj [(''ticker'', Str ''AAA''), (''price'', Str ''10''), (''change_percentage'', Str ''5.5%'')]"

definition example_record :: jsval where
  "example_record =
     Obj [(''symbol'', Str ''AAA''), (''price'', Str ''10.00''), (''change'', Str ''5.50'')]"

text \<open>An entry whose price is no number and whose change has a percent sign inside.\<close>

definition unparsable_entry :: jsval where
  "unparsable_entry =
     Obj [(''ticker'', Str ''AAA''), (''price'', Str ''n/a''), (''change_percentage'', Str ''1%2'')]"

text \<open>A movers result with one gainer and two losers, and one whose only gainer is \<open>null\<close>.\<close>

definition example_movers :: jsval where
  "example_movers = movers_object [example_record] [example_record, example_record]"

definition null_item_movers :: jsval where
  "null_item_movers = movers_object [Null] []"

text \<open>Upstream bodies: a rate-limit notice, an error message with a notice, an empty notice.\<close>

definition note_response :: jsval where
  "note_response = Obj [(''Note'', Str ''rate limit exceeded'')]"

definition both_response :: jsval where
  "both_response =
     Obj [(''Error Message'', Str ''Invalid API call.''), (''Note'', Str ''rate limit exceeded'')]"

definition empty_note_response :: jsval where
  "empty_note_response = Obj [(''Note'', Str [])]"

text \<open>Breadth counts that sum to zero, and data for the chart.\<close>

definition zero_breadth :: jsval where
  "zero_breadth =
     Obj [(''advancing'', Num (Fin 0)), (''declining'', Num (Fin 0)), (''unchanged'', Num (Fin 0))]"


section \<open>Properties\<close>

subsection \<open>Writing to an element\<close>

lemma set_innerHTML_empty: "set_innerHTML [] = []"
  by (simp add: set_innerHTML_def)

lemma assign_if_present_map:
  "assign_if_present el s = map_option (\<lambda>old. set_innerHTML s) el"
  by (cases el) (simp_all add: assign_if_present_def)

lemma get_prop_field: "\<not> nullish v \<Longrightarrow> get_prop v name = Inr (field v name)"
  by (cases v) simp_all

lemma truthy_field_not_nullish: "truthy (field r name) \<Longrightarrow> \<not> nullish r"
  by (cases r) simp_all

lemma forEach_append_ok:
  "list_all (\<lambda>item. create item = Inr (f item)) items \<Longrightarrow>
   forEach_append create items children = (children @ map f items, None)"
  by (induction items arbitrary: children) simp_all

subsection \<open>Values that convert to a string\<close>

lemma to_string_of: "has_string v \<Longrightarrow> to_string v = Inr (string_of v)"
  by (simp add: has_string_def string_of_def split: sum.splits)

lemma has_string_iff: "has_string v \<longleftrightarrow> (\<exists>s. to_string v = Inr s)"
  by (simp add: has_string_def split: sum.splits)

lemma string_of_eq: "to_string v = Inr s \<Longrightarrow> has_string v \<and> string_of v = s"
  by (simp add: has_string_def string_of_def)

lemma has_string_primitive:
  "has_string (Str s) \<and> string_of (Str s) = s \<and> has_string (Num x) \<and> has_string (Bool b)
   \<and> has_string Null \<and> has_string Undefined"
  by (simp add: has_string_def string_of_def)

lemma has_string_object: "has_string (Obj fs) \<longleftrightarrow> map_of fs ''toString'' = None"
  by (simp add: has_string_def)

lemma prop_string_field:
  "\<not> nullish item \<Longrightarrow> has_string (field item name) \<Longrightarrow>
   prop_string item name = Inr (string_of (field item name))"
  by (simp add: prop_string_def get_prop_field to_string_of)

lemma prop_string_nullish:
  "nullish item \<Longrightarrow> \<exists>e. prop_string item name = Inl e"
  by (cases item) (simp_all add: prop_string_def)

subsection \<open>The rows of renderTopMovers\<close>

lemma mover_record_not_nullish: "mover_record item \<Longrightarrow> \<not> nullish item"
  by (cases item) (simp_all add: mover_record_def)

lemma createTableRow_ok:
  "mover_record item \<Longrightarrow> createTableRow item isGainer = Inr (table_row item isGainer)"
  using mover_record_not_nullish [of item]
  by (simp add: createTableRow_def table_row_def prop_string_field mover_record_def)

lemma table_row_markup:
  \<open>table_row item True =
     Element ''tr'' []
       (''
                <td class="px-6 py-4 whitespace-nowrap text-sm font-medium text-gray-900">'' @ string_of (field item ''symbol'') @ ''</td>
                <td class="px-6 py-4 whitespace-nowrap text-sm text-gray-500">$'' @ string_of (field item ''price'') @ ''</td>
                <td class="px-6 py-4 whitespace-nowrap text-sm price-up">'' @ string_of (field item ''change'') @ ''%</td>
            '')
   \<and> table_row item False =
     Element ''tr'' []
       (''
                <td class="px-6 py-4 whitespace-nowrap text-sm font-medium text-gray-900">'' @ string_of (field item ''symbol'') @ ''</td>
                <td class="px-6 py-4 whitespace-nowrap text-sm text-gray-500">$'' @ string_of (field item ''price'') @ ''</td>
                <td class="px-6 py-4 whitespace-nowrap text-sm price-down">'' @ string_of (field item ''change'') @ ''%</td>
            '')\<close>
  by (simp add: table_row_def row_html_def)

text \<open>
  Objects whose three fields are strings are records, and so is what normalization makes
  of an entry whose ticker converts to a string.
\<close>

lemma mover_record_strings:
  "mover_record (Obj [(''symbol'', Str s), (''price'', Str p), (''change'', Str c)])"
  by (simp add: mover_record_def has_string_def)

lemma normalize_item_record:
  "normalize_item item = Inr r \<Longrightarrow> has_string (field item ''ticker'') \<Longrightarrow> mover_record r"
  by (cases item)
     (auto simp: normalize_item_def mover_record_def has_string_def split: sum.splits)

lemma append_rows_ok:
  "list_all mover_record items \<Longrightarrow>
   append_rows body items isGainer =
     (map_option (\<lambda>children. children @ map (\<lambda>item. table_row item isGainer) items) body, None)"
proof (cases body)
  case None
  then show ?thesis by (simp add: append_rows_def)
next
  case (Some children)
  assume "list_all mover_record items"
  then have "list_all (\<lambda>item. createTableRow item isGainer = Inr (table_row item isGainer)) items"
    by (simp add: list_all_iff createTableRow_ok)
  from forEach_append_ok [OF this] Some show ?thesis
    by (simp add: append_rows_def)
qed

lemma render_rows_ok:
  assumes "list_all mover_record gainers"
    and "list_all mover_record losers"
  shows "render_rows gainers losers d =
     (d\<lparr>gainersTableBody :=
          map_option (\<lambda>old. map (\<lambda>item. table_row item True) gainers) (gainersTableBody d),
        losersTableBody :=
          map_option (\<lambda>old. map (\<lambda>item. table_row item False) losers) (losersTableBody d)\<rparr>,
      None)"
  using assms
  by (simp add: render_rows_def append_rows_ok assign_if_present_map set_innerHTML_empty
      option.map_comp comp_def)

lemma movers_invalid_eq:
  \<open>movers_invalid d =
     d\<lparr>gainersTableBody :=
         map_option (\<lambda>old. [Markup ''<tr><td colspan="3">Data unavailable.</td></tr>''])
           (gainersTableBody d),
       losersTableBody :=
         map_option (\<lambda>old. [Markup ''<tr><td colspan="3">Data unavailable.</td></tr>''])
           (losersTableBody d)\<rparr>\<close>
  by (simp add: movers_invalid_def assign_if_present_map set_innerHTML_def movers_unavailable_def)

text \<open>The check of \<open>renderTopMovers\<close> passes exactly the well-shaped arguments.\<close>

lemma renderTopMovers_invalid:
  "\<not> well_shaped moversData \<Longrightarrow> renderTopMovers moversData d = (movers_invalid d, None)"
  by (cases moversData) (auto simp: renderTopMovers_def)

lemma renderTopMovers_valid:
  "well_shaped moversData \<Longrightarrow>
   renderTopMovers moversData d =
     render_rows (elems (field moversData ''gainers'')) (elems (field moversData ''losers'')) d"
  by (cases moversData) (auto simp: renderTopMovers_def)

lemma renderTopMovers_empty:
  "renderTopMovers (movers_object [] []) d =
     (d\<lparr>gainersTableBody := map_option (\<lambda>old. []) (gainersTableBody d),
        losersTableBody := map_option (\<lambda>old. []) (losersTableBody d)\<rparr>, None)"
  by (simp add: renderTopMovers_valid movers_object_def render_rows_ok)

lemma example_record_row:
  \<open>mover_record example_record
   \<and> table_row example_record True =
       Element ''tr'' [] (''
                <td class="px-6 py-4 whitespace-nowrap text-sm font-medium text-gray-900">AAA</td>
                <td class="px-6 py-4 whitespace-nowrap text-sm text-gray-500">$10.00</td>
                <td class="px-6 py-4 whitespace-nowrap text-sm price-up">5.50%</td>
            '')
   \<and> table_row example_record False =
       Element ''tr'' [] (''
                <td class="px-6 py-4 whitespace-nowrap text-sm font-medium text-gray-900">AAA</td>
                <td class="px-6 py-4 whitespace-nowrap text-sm text-gray-500">$10.00</td>
                <td class="px-6 py-4 whitespace-nowrap text-sm price-down">5.50%</td>
            '')\<close>
  by (simp add: table_row_markup mover_record_def example_record_def has_string_primitive)

lemma renderTopMovers_example:
  \<open>renderTopMovers example_movers empty_page =
     (empty_page\<lparr>gainersTableBody :=
          Some [Element ''tr'' [] (''
                <td class="px-6 py-4 whitespace-nowrap text-sm font-medium text-gray-900">AAA</td>
                <td class="px-6 py-4 whitespace-nowrap text-sm text-gray-500">$10.00</td>
                <td class="px-6 py-4 whitespace-nowrap text-sm price-up">5.50%</td>
            '')],
        losersTableBody :=
          Some [Element ''tr'' [] (''
                <td class="px-6 py-4 whitespace-nowrap text-sm font-medium text-gray-900">AAA</td>
                <td class="px-6 py-4 whitespace-nowrap text-sm text-gray-500">$10.00</td>
                <td class="px-6 py-4 whitespace-nowrap text-sm price-down">5.50%</td>
            ''),
                Element ''tr'' [] (''
                <td class="px-6 py-4 whitespace-nowrap text-sm font-medium text-gray-900">AAA</td>
                <td class="px-6 py-4 whitespace-nowrap text-sm text-gray-500">$10.00</td>
                <td class="px-6 py-4 whitespace-nowrap text-sm price-down">5.50%</td>
            '')]\<rparr>,
      None)\<close>
proof -
  have "renderTopMovers example_movers empty_page =
     (empty_page\<lparr>gainersTableBody := Some [table_row example_record True],
        losersTableBody := Some [table_row example_record False, table_row example_record False]\<rparr>,
      None)"
    using example_record_row
    by (simp add: example_movers_def movers_object_def empty_page_def
        renderTopMovers_valid render_rows_ok)
  then show ?thesis by (simp only: example_record_row)
qed

subsection \<open>What a rendering function leaves alone, and a second call\<close>

lemma render_rows_frame:
  "breadthWidget (fst (render_rows gs ls d)) = breadthWidget d"
  by (auto simp: render_rows_def Let_def split: prod.splits option.splits)

lemma renderTopMovers_frame:
  "breadthWidget (fst (renderTopMovers v d)) = breadthWidget d"
  by (cases "well_shaped v")
     (simp_all add: renderTopMovers_valid renderTopMovers_invalid render_rows_frame
        movers_invalid_def)







subsection \<open>A page without some of the elements\<close>

lemma without_sinks_invalid:
  "movers_invalid (without_sinks g l b d) = without_sinks g l b (movers_invalid d)"
  by (simp add: movers_invalid_def without_sinks_def assign_if_present_def)

lemma render_rows_without:
  "snd (render_rows gs ls d) = None \<Longrightarrow>
   render_rows gs ls (without_sinks g l b d) = (without_sinks g l b (fst (render_rows gs ls d)), None)"
  by (cases "gainersTableBody d"; cases "losersTableBody d")
     (auto simp: render_rows_def append_rows_def assign_if_present_def without_sinks_def
        split: prod.splits option.splits)

lemma show_error_without:
  "show_error e (without_sinks g l b d) = without_sinks g l b (show_error e d)"
  by (simp add: show_error_def without_sinks_def assign_if_present_def)

lemma show_error_part0_without:
  "show_error_part0 e (without_sinks g l b d) = without_sinks g l b (show_error_part0 e d)"
  by (simp add: show_error_part0_def without_sinks_def assign_if_present_def)

subsection \<open>The breadth widget\<close>

lemma to_numeric_Num: "to_numeric (Num x) = Inr x"
  by (simp add: to_numeric_def to_primitive_def)

lemma js_plus_Num: "js_plus (Num x) (Num y) = Inr (Num (js_add x y))"
  by (simp add: js_plus_def to_primitive_def)

lemma field_Num_record: "field b name = Num x \<Longrightarrow> \<not> nullish b \<and> truthy b"
  by (cases b) simp_all

lemma breadth_total_numbers:
  assumes "field b ''advancing'' = Num x" and "field b ''declining'' = Num y"
    and "field b ''unchanged'' = Num z"
  shows "breadth_total b = Inr (Num (js_add (js_add x y) z))"
  using assms field_Num_record [OF assms(1)]
  by (simp add: breadth_total_def get_prop_field js_plus_Num)

lemma share_numbers:
  "field b name = Num c \<Longrightarrow> share b name (Num t) = Inr (num_to_string (percentage c t))"
  using field_Num_record [of b name c]
  by (simp add: share_def get_prop_field to_numeric_Num)

lemma breadth_html_markup:
  \<open>set_innerHTML (breadth_html adv dec unch) =
     [Markup (''
            <div class="flex flex-col items-center">
                <p class="text-sm font-medium text-gray-500">Advancing</p>
                <span class="text-lg font-bold indicator-up">'' @ adv @ ''%</span>
            </div>
            <div class="flex flex-col items-center">
                <p class="text-sm font-medium text-gray-500">Declining</p>
                <span class="text-lg font-bold indicator-down">'' @ dec @ ''%</span>
            </div>
            <div class="flex flex-col items-center">
                <p class="text-sm font-medium text-gray-500">Unchanged</p>
                <span class="text-lg font-bold text-gray-600">'' @ unch @ ''%</span>
            </div>
        '')]\<close>
  by (simp add: set_innerHTML_def breadth_html_def)

lemma renderMarketBreadth_numbers:
  assumes "field b ''advancing'' = Num x" and "field b ''declining'' = Num y"
    and "field b ''unchanged'' = Num z"
  shows \<open>renderMarketBreadth b d =
     (d\<lparr>breadthWidget := map_option (\<lambda>old.
          [Markup (''
            <div class="flex flex-col items-center">
                <p class="text-sm font-medium text-gray-500">Advancing</p>
                <span class="text-lg font-bold indicator-up">'' @ num_to_string (percentage x (js_add (js_add x y) z)) @ ''%</span>
            </div>
            <div class="flex flex-col items-center">
                <p class="text-sm font-medium text-gray-500">Declining</p>
                <span class="text-lg font-bold indicator-down">'' @ num_to_string (percentage y (js_add (js_add x y) z)) @ ''%</span>
            </div>
            <div class="flex flex-col items-center">
                <p class="text-sm font-medium text-gray-500">Unchanged</p>
                <span class="text-lg font-bold text-gray-600">'' @ num_to_string (percentage z (js_add (js_add x y) z)) @ ''%</span>
            </div>
        '')])
          (breadthWidget d)\<rparr>, None)\<close>
  using field_Num_record [OF assms(1)]
  by (cases "breadthWidget d")
     (simp_all add: renderMarketBreadth_def breadth_total_numbers [OF assms]
        share_numbers assms breadth_html_markup)

lemma mock_percentages:
  "js_add (js_add (Fin 2500) (Fin 500)) (Fin 100) = Fin 3100
   \<and> percentage (Fin 2500) (Fin 3100) = Fin 81
   \<and> percentage (Fin 500) (Fin 3100) = Fin 16
   \<and> percentage (Fin 100) (Fin 3100) = Fin 3"
  by code_simp

lemma mock_strings:
  "num_to_string (Fin 81) = ''81'' \<and> num_to_string (Fin 16) = ''16''
   \<and> num_to_string (Fin 3) = ''3''"
  by code_simp

lemma renderMarketBreadth_mock:
  \<open>renderMarketBreadth mockBreadthData d =
     (d\<lparr>breadthWidget := map_option (\<lambda>old.
          [Markup (''
            <div class="flex flex-col items-center">
                <p class="text-sm font-medium text-gray-500">Advancing</p>
                <span class="text-lg font-bold indicator-up">81%</span>
            </div>
            <div class="flex flex-col items-center">
                <p class="text-sm font-medium text-gray-500">Declining</p>
                <span class="text-lg font-bold indicator-down">16%</span>
            </div>
            <div class="flex flex-col items-center">
                <p class="text-sm font-medium text-gray-500">Unchanged</p>
                <span class="text-lg font-bold text-gray-600">3%</span>
            </div>
        '')])
          (breadthWidget d)\<rparr>, None)\<close>
proof -
  have "field mockBreadthData ''advancing'' = Num (Fin 2500)"
    and "field mockBreadthData ''declining'' = Num (Fin 500)"
    and "field mockBreadthData ''unchanged'' = Num (Fin 100)"
    by (simp_all add: mockBreadthData_def)
  from renderMarketBreadth_numbers [OF this, of d] mock_percentages mock_strings
  show ?thesis by simp
qed

lemma percentage_zero_total:
  "is_zero t \<Longrightarrow> percentage c t = NaN \<or> percentage c t = PosInf \<or> percentage c t = NegInf"
  by (cases c; cases t)
     (auto simp: percentage_def js_div_def js_mul_def signed_inf_def signed_zero_def Let_def)

lemma not_finite_string:
  "x = NaN \<or> x = PosInf \<or> x = NegInf \<Longrightarrow>
   \<not> is_finite x \<and> (num_to_string x = ''NaN'' \<or> num_to_string x = ''Infinity''
     \<or> num_to_string x = ''-Infinity'')"
  by auto

subsection \<open>Two decimal digits\<close>

lemma is_digit_digit_char: "0 \<le> d \<Longrightarrow> d < 10 \<Longrightarrow> is_digit (digit_char d)"
  by (simp add: is_digit_def digit_char_def)

lemma digits_all_digit: "0 \<le> n \<Longrightarrow> list_all is_digit (digits n)"
proof (induction n rule: digits.induct)
  case (1 n)
  show ?case
  proof (cases "n < 10")
    case True
    with 1 show ?thesis by (subst digits.simps) (simp add: is_digit_digit_char)
  next
    case False
    then have "0 \<le> n div 10" by simp
    with 1 False have "list_all is_digit (digits (n div 10))" by simp
    moreover have "is_digit (digit_char (n mod 10))" by (simp add: is_digit_digit_char)
    ultimately show ?thesis using False by (subst digits.simps) simp
  qed
qed

lemma minus_not_digit: "\<not> is_digit (CHR ''-'')"
  by (simp add: is_digit_def)

lemma two_decimals_point:
  assumes "list_all is_digit m" and "3 \<le> length m" and "sign = [] \<or> sign = ''-''"
  shows "two_decimals (sign @ take (length m - 2) m @ ''.'' @ drop (length m - 2) m)"
proof -
  obtain a d1 d2 where m: "m = a @ [d1, d2]" and a: "a \<noteq> []"
  proof -
    from assms(2) have "m = take (length m - 2) m @ drop (length m - 2) m" by simp
    moreover from assms(2) have "length (drop (length m - 2) m) = 2" by simp
    then obtain d1 d2 where "drop (length m - 2) m = [d1, d2]"
      by (metis (no_types, opaque_lifting) One_nat_def Suc_1 length_0_conv length_Suc_conv)
    moreover from assms(2) have "take (length m - 2) m \<noteq> []" by auto
    ultimately show ?thesis using that by metis
  qed
  from assms(1) m have digs: "list_all is_digit a" "is_digit d1" "is_digit d2" by simp_all
  from a obtain c r where ar: "a = c # r" by (cases a) auto
  with digs have "c \<noteq> CHR ''-''" using minus_not_digit by auto
  then show ?thesis
    using digs ar assms(3) by (auto simp: m two_decimals_def)
qed

lemma two_decimals_fixed2:
  assumes "0 \<le> x" and "sign = [] \<or> sign = ''-''"
  shows "two_decimals (sign @ fixed2 x)"
proof -
  let ?n = "\<lfloor>x * 100 + 1 / 2\<rfloor>"
  let ?m = "digits ?n"
  let ?m' = "if length ?m \<le> 2 then replicate (3 - length ?m) (CHR ''0'') @ ?m else ?m"
  from assms(1) have "0 \<le> ?n" by simp
  then have "list_all is_digit ?m" by (rule digits_all_digit)
  moreover have "is_digit (CHR ''0'')" by (simp add: is_digit_def)
  ultimately have "list_all is_digit ?m'" by (simp add: list_all_iff)
  moreover have "3 \<le> length ?m'" by auto
  ultimately have
    "two_decimals (sign @ take (length ?m' - 2) ?m' @ ''.'' @ drop (length ?m' - 2) ?m')"
    using assms(2) by (rule two_decimals_point)
  then show ?thesis by (simp add: fixed2_def Let_def)
qed

lemma two_decimals_toFixed2: "fixed_range x \<Longrightarrow> two_decimals (toFixed2 x)"
proof (cases x)
  case (Fin q)
  assume "fixed_range x"
  with Fin have small: "\<not> 10 ^ 21 \<le> \<bar>q\<bar>" by simp
  have "two_decimals ((if q < 0 then ''-'' else []) @ fixed2 \<bar>q\<bar>)"
    by (rule two_decimals_fixed2) auto
  with small Fin show ?thesis by (simp add: Let_def)
next
  case NegZero
  have "two_decimals ([] @ fixed2 0)" by (rule two_decimals_fixed2) auto
  with NegZero show ?thesis by simp
qed simp_all

subsection \<open>The percent sign\<close>

lemma str_replace_at_end:
  "CHR ''%'' \<notin> set b \<Longrightarrow> str_replace ''%'' [] (b @ ''%'') = b"
  by (induction b) (auto simp: starts_with_def)

lemma str_replace_absent:
  "CHR ''%'' \<notin> set s \<Longrightarrow> str_replace ''%'' [] s = s"
  by (induction s) (auto simp: starts_with_def)

lemma strip_trailing_agrees:
  "CHR ''%'' \<notin> set (butlast s) \<Longrightarrow> str_replace ''%'' [] s = strip_trailing_percent s"
proof (cases "s \<noteq> [] \<and> last s = CHR ''%''")
  case True
  assume "CHR ''%'' \<notin> set (butlast s)"
  moreover from True have "s = butlast s @ ''%''" by (metis append_butlast_last_id)
  ultimately have "str_replace ''%'' [] s = butlast s"
    using str_replace_at_end [of "butlast s"] by simp
  with True show ?thesis by (simp add: strip_trailing_percent_def)
next
  case False
  assume nb: "CHR ''%'' \<notin> set (butlast s)"
  have "CHR ''%'' \<notin> set s"
  proof (cases "s = []")
    case True
    then show ?thesis by simp
  next
    case ne: False
    then have "set (butlast s @ [last s]) = set s" by simp
    then have "set s = set (butlast s) \<union> {last s}" by (simp del: append_butlast_last_id)
    with nb False ne show ?thesis by auto
  qed
  with False show ?thesis by (auto simp: str_replace_absent strip_trailing_percent_def)
qed

lemma normalize_example: "normalize_item example_entry = Inr example_record"
  by code_simp

subsection \<open>The try and catch blocks\<close>

lemma fetch_try_eq:
  "\<not> nullish r \<Longrightarrow>
   fetch_try (Inr r) d =
     (if truthy (field r ''Error Message'') \<or> truthy (field r ''Note'')
      then (d, Some (new_Error (js_or (field r ''Error Message'') (field r ''Note''))))
      else render_response r d)"
  by (simp add: fetch_try_def API_KEY_def get_prop_field js_or_def)

lemma fetch_try_part0_eq:
  "\<not> nullish r \<Longrightarrow>
   fetch_try_part0 (Inr r) d =
     (if truthy (field r ''Error Message'') \<or> truthy (field r ''Note'')
      then (d, Some (Error api_error_text))
      else render_response r d)"
  by (simp add: fetch_try_part0_def API_KEY_def get_prop_field js_or_def)

lemma new_Error_string: "truthy v \<Longrightarrow> to_string v = Inr m \<Longrightarrow> new_Error v = Error m"
  by (cases v) (simp_all add: new_Error_def)

lemma show_error_eq:
  \<open>show_error e d =
     d\<lparr>gainersTableBody := map_option
          (\<lambda>old. [Markup (''<tr><td colspan="3">'' @ message e @ ''</td></tr>'')])
          (gainersTableBody d),
       losersTableBody := map_option
          (\<lambda>old. [Markup (''<tr><td colspan="3">'' @ message e @ ''</td></tr>'')])
          (losersTableBody d),
       breadthWidget := map_option
          (\<lambda>old. [Markup (''<p>'' @ message e @ ''</p>'')]) (breadthWidget d)\<rparr>\<close>
  by (simp add: show_error_def assign_if_present_map set_innerHTML_def)

lemma show_error_part0_eq:
  \<open>show_error_part0 e d =
     d\<lparr>gainersTableBody := map_option
          (\<lambda>old. [Markup
             (''<tr><td colspan="3" class="px-6 py-4 whitespace-nowrap text-sm text-gray-500">''
              @ message_or_default e @ ''</td></tr>'')])
          (gainersTableBody d),
       losersTableBody := map_option
          (\<lambda>old. [Markup
             (''<tr><td colspan="3" class="px-6 py-4 whitespace-nowrap text-sm text-gray-500">''
              @ message_or_default e @ ''</td></tr>'')])
          (losersTableBody d),
       breadthWidget := map_option
          (\<lambda>old. [Markup (''<p class="col-span-3 text-red-500">'' @ message_or_default e @ ''</p>'')])
          (breadthWidget d)\<rparr>\<close>
  by (simp add: show_error_part0_def assign_if_present_map set_innerHTML_def)

lemma top_arrays_eq:
  "\<not> nullish r \<Longrightarrow>
   top_arrays r =
     Inr (if truthy r \<and> isArray (field r ''top_gainers'') \<and> isArray (field r ''top_losers'')
          then Some (elems (field r ''top_gainers''), elems (field r ''top_losers''))
          else None)"
  by (simp add: top_arrays_def get_prop_field)

lemma render_movers_of_frame:
  "breadthWidget (fst (render_movers_of r d)) = breadthWidget d"
  by (auto simp: render_movers_of_def renderTopMovers_frame split: sum.splits option.splits)

lemma render_response_breadth:
  "render_response r d = (d1, None) \<Longrightarrow>
   breadthWidget d1 = breadthWidget (fst (renderMarketBreadth mockBreadthData d))"
  using render_movers_of_frame [of r d]
  by (auto simp: render_response_def renderMarketBreadth_mock split: prod.splits option.splits)

lemma fetch_try_breadth:
  "fetch_try response d = (d1, None) \<Longrightarrow>
   breadthWidget d1 = breadthWidget (fst (renderMarketBreadth mockBreadthData d))"
  by (auto simp: fetch_try_def API_KEY_def render_response_breadth
      split: sum.splits if_splits)

lemma degraded_response:
  assumes "\<not> nullish r"
    and "\<not> truthy (field r ''Error Message'')" and "\<not> truthy (field r ''Note'')"
    and "\<not> (isArray (field r ''top_gainers'') \<and> isArray (field r ''top_losers''))"
  shows "render_response r d =
     renderMarketBreadth mockBreadthData
       (d\<lparr>gainersTableBody := map_option (\<lambda>old. []) (gainersTableBody d),
          losersTableBody := map_option (\<lambda>old. []) (losersTableBody d)\<rparr>)"
  using assms
  by (auto simp: render_response_def render_movers_of_def top_arrays_eq renderTopMovers_empty)

section \<open>Properties of the specification\<close>

subsection \<open>Rows of the movers tables\<close>

text \<open>
  C1. For every argument whose \<open>gainers\<close> and \<open>losers\<close> are arrays of records,
  \<open>renderTopMovers\<close> raises no exception and replaces the children of each of the two
  table bodies the page has by one row per record of the corresponding array, in the
  order of the array (the old children are gone, so the body was cleared first). The
  row of a record is a \<open>tr\<close> element with three cells, which hold the strings of its
  symbol, price and change; the third cell has the class \<open>price-up\<close> in the row of a
  gainer and \<open>price-down\<close> in the row of a loser. A record is an object whose symbol,
  price and change convert to strings, as the strings of the specification's records do.
\<close>

theorem renderTopMovers_one_row_per_record:
  assumes \<open>field moversData ''gainers'' = Arr gainers\<close>
    and \<open>field moversData ''losers'' = Arr losers\<close>
    and \<open>list_all mover_record gainers\<close>
    and \<open>list_all mover_record losers\<close>
  shows \<open>renderTopMovers moversData d =
     (d\<lparr>gainersTableBody := map_option
          (\<lambda>old. map (\<lambda>item. Element ''tr'' []
             (''
                <td class="px-6 py-4 whitespace-nowrap text-sm font-medium text-gray-900">'' @ string_of (field item ''symbol'') @ ''</td>
                <td class="px-6 py-4 whitespace-nowrap text-sm text-gray-500">$'' @ string_of (field item ''price'') @ ''</td>
                <td class="px-6 py-4 whitespace-nowrap text-sm price-up">'' @ string_of (field item ''change'') @ ''%</td>
            ''))
             gainers)
          (gainersTableBody d),
        losersTableBody := map_option
          (\<lambda>old. map (\<lambda>item. Element ''tr'' []
             (''
                <td class="px-6 py-4 whitespace-nowrap text-sm font-medium text-gray-900">'' @ string_of (field item ''symbol'') @ ''</td>
                <td class="px-6 py-4 whitespace-nowrap text-sm text-gray-500">$'' @ string_of (field item ''price'') @ ''</td>
                <td class="px-6 py-4 whitespace-nowrap text-sm price-down">'' @ string_of (field item ''change'') @ ''%</td>
            ''))
             losers)
          (losersTableBody d)\<rparr>,
      None)\<close>
proof -
  from assms(1,2) have shaped: "well_shaped moversData"
    by (cases moversData) simp_all
  with assms have "renderTopMovers moversData d =
     (d\<lparr>gainersTableBody :=
          map_option (\<lambda>old. map (\<lambda>item. table_row item True) gainers) (gainersTableBody d),
        losersTableBody :=
          map_option (\<lambda>old. map (\<lambda>item. table_row item False) losers) (losersTableBody d)\<rparr>,
      None)"
    by (simp add: renderTopMovers_valid render_rows_ok)
  then show ?thesis by (simp only: table_row_markup)
qed

text \<open>
  One gainer and two losers, each the record \<open>{symbol: "AAA", price: "10.00",
  change: "5.50"}\<close>, on a page that has both tables.
\<close>

theorem renderTopMovers_one_row_per_record_witness:
  \<open>renderTopMovers example_movers empty_page =
     (empty_page\<lparr>gainersTableBody :=
          Some [Element ''tr'' [] (''
                <td class="px-6 py-4 whitespace-nowrap text-sm font-medium text-gray-900">AAA</td>
                <td class="px-6 py-4 whitespace-nowrap text-sm text-gray-500">$10.00</td>
                <td class="px-6 py-4 whitespace-nowrap text-sm price-up">5.50%</td>
            '')],
        losersTableBody :=
          Some [Element ''tr'' [] (''
                <td class="px-6 py-4 whitespace-nowrap text-sm font-medium text-gray-900">AAA</td>
                <td class="px-6 py-4 whitespace-nowrap text-sm text-gray-500">$10.00</td>
                <td class="px-6 py-4 whitespace-nowrap text-sm price-down">5.50%</td>
            ''),
                Element ''tr'' [] (''
                <td class="px-6 py-4 whitespace-nowrap text-sm font-medium text-gray-900">AAA</td>
                <td class="px-6 py-4 whitespace-nowrap text-sm text-gray-500">$10.00</td>
                <td class="px-6 py-4 whitespace-nowrap text-sm price-down">5.50%</td>
            '')]\<rparr>,
      None)\<close>
  using renderTopMovers_one_row_per_record
    [of example_movers "[example_record]" "[example_record, example_record]" empty_page]
  by (simp add: example_movers_def movers_object_def example_record_def empty_page_def
      mover_record_def has_string_def string_of_def)

subsection \<open>Normalization of an upstream entry\<close>

text \<open>
  C2, as amended. For every raw entry whose \<open>change_percentage\<close> is a string and whose
  \<open>price\<close> converts to a string, normalization copies \<open>ticker\<close> into \<open>symbol\<close> as it
  is, and makes \<open>price\<close> and \<open>change\<close> by \<open>parseFloat\<close> and \<open>toFixed(2)\<close>, the
  change after the first percent sign of the string was removed. The result has exactly
  two decimal digits when the parsed number is finite and below \<open>10 ^ 21\<close> in
  magnitude. Removing the first percent sign is stripping a trailing one when the
  string has no percent sign before its last character. The entry \<open>{ticker: "AAA",
  price: "10", change_percentage: "5.5%"}\<close> is mapped to \<open>{symbol: "AAA", price:
  "10.00", change: "5.50"}\<close>.
\<close>

theorem normalize_item_fields:
  assumes "field item ''change_percentage'' = Str c"
    and "to_string (field item ''price'') = Inr p"
  shows "normalize_item item =
       Inr (Obj [(''symbol'', field item ''ticker''),
                 (''price'', Str (toFixed2 (parseFloat p))),
                 (''change'', Str (toFixed2 (parseFloat (str_replace ''%'' [] c))))])
     \<and> (fixed_range (parseFloat p) \<longrightarrow> two_decimals (toFixed2 (parseFloat p)))
     \<and> (fixed_range (parseFloat (str_replace ''%'' [] c)) \<longrightarrow>
          two_decimals (toFixed2 (parseFloat (str_replace ''%'' [] c))))
     \<and> (CHR ''%'' \<notin> set (butlast c) \<longrightarrow> str_replace ''%'' [] c = strip_trailing_percent c)
     \<and> normalize_item example_entry = Inr example_record"
proof -
  from assms(1) have "\<not> nullish item" by (cases item) simp_all
  with assms have "normalize_item item =
       Inr (Obj [(''symbol'', field item ''ticker''),
                 (''price'', Str (toFixed2 (parseFloat p))),
                 (''change'', Str (toFixed2 (parseFloat (str_replace ''%'' [] c))))])"
    by (simp add: normalize_item_def prop_string_def get_prop_field replace_percent_def)
  then show ?thesis
    using two_decimals_toFixed2 strip_trailing_agrees normalize_example by blast
qed

text \<open>The specification's example entry.\<close>

theorem normalize_item_fields_witness:
  "normalize_item example_entry =
     Inr (Obj [(''symbol'', Str ''AAA''), (''price'', Str ''10.00''), (''change'', Str ''5.50'')])
   \<and> two_decimals ''10.00'' \<and> two_decimals ''5.50''"
proof -
  let ?price = "parseFloat ''10''"
  let ?change = "parseFloat (str_replace ''%'' [] ''5.5%'')"
  have f: "field example_entry ''change_percentage'' = Str ''5.5%''"
    by (simp add: example_entry_def)
  have s: "to_string (field example_entry ''price'') = Inr ''10''"
    by (simp add: example_entry_def)
  have t: "field example_entry ''ticker'' = Str ''AAA''"
    by (simp add: example_entry_def)
  have p: "toFixed2 ?price = ''10.00''" and c: "toFixed2 ?change = ''5.50''"
    and rp: "fixed_range ?price" and rc: "fixed_range ?change"
    by code_simp+
  note inst = normalize_item_fields [OF f s]
  from inst have "normalize_item example_entry =
       Inr (Obj [(''symbol'', field example_entry ''ticker''),
                 (''price'', Str (toFixed2 ?price)), (''change'', Str (toFixed2 ?change))])"
    by blast
  moreover from inst rp have "two_decimals (toFixed2 ?price)" by blast
  moreover from inst rc have "two_decimals (toFixed2 ?change)" by blast
  ultimately show ?thesis by (simp only: p c t)
qed

text \<open>
  C2 as stated fails. On the entry \<open>{ticker: "AAA", price: "n/a", change_percentage:
  "1%2"}\<close> the price becomes \<open>NaN\<close>, which has no two decimal digits, and the change
  becomes \<open>12.00\<close>, where stripping a trailing percent sign, parsing and formatting
  gives \<open>1.00\<close>. An entry without \<open>change_percentage\<close>, and one whose price is the
  object \<open>{"toString": 1}\<close>, are not mapped at all: the function throws.
\<close>

theorem normalize_item_counterexample:
  "normalize_item unparsable_entry =
     Inr (Obj [(''symbol'', Str ''AAA''), (''price'', Str ''NaN''), (''change'', Str ''12.00'')])
   \<and> \<not> two_decimals ''NaN''
   \<and> spec_change ''1%2'' = ''1.00''
   \<and> normalize_item (Obj [(''ticker'', Str ''AAA''), (''price'', Str ''10'')]) =
       Inl (TypeError (''Cannot read properties of undefined (reading '' @ [CHR 0x27]
         @ ''replace'' @ [CHR 0x27] @ '')''))
   \<and> normalize_item (Obj [(''ticker'', Str ''AAA''), (''price'', Obj [(''toString'', Num (Fin 1))]),
        (''change_percentage'', Str ''5.5%'')]) =
       Inl (TypeError ''Cannot convert object to primitive value'')"
  by code_simp

subsection \<open>An upstream rejection\<close>

text \<open>
  C3, as amended. For every upstream body whose \<open>Note\<close> is truthy and converts to a
  string (as every string does) and whose \<open>Error Message\<close> is not truthy,
  \<open>fetchMarketData\<close> of src/js/script.js renders no mover rows and writes the string
  of the note, in the markup of the \<open>catch\<close> block, into each of the three elements the
  page has; the copy of the script in src/unnamed/part_000 writes its fixed text instead
  of the upstream message.
\<close>

theorem upstream_note_is_shown:
  assumes \<open>\<not> truthy (field response ''Error Message'')\<close>
    and \<open>truthy (field response ''Note'')\<close>
    and \<open>to_string (field response ''Note'') = Inr note\<close>
  shows \<open>fetchMarketData (Inr response) d =
       d\<lparr>gainersTableBody := map_option
            (\<lambda>old. [Markup (''<tr><td colspan="3">'' @ note @ ''</td></tr>'')])
            (gainersTableBody d),
         losersTableBody := map_option
            (\<lambda>old. [Markup (''<tr><td colspan="3">'' @ note @ ''</td></tr>'')])
            (losersTableBody d),
         breadthWidget := map_option
            (\<lambda>old. [Markup (''<p>'' @ note @ ''</p>'')])
            (breadthWidget d)\<rparr>
     \<and> fetchMarketData_part0 (Inr response) d =
       d\<lparr>gainersTableBody := map_option
            (\<lambda>old. [Markup ''<tr><td colspan="3" class="px-6 py-4 whitespace-nowrap text-sm text-gray-500">API returned an error. Please check your API key or a rate limit may have been exceeded.</td></tr>''])
            (gainersTableBody d),
         losersTableBody := map_option
            (\<lambda>old. [Markup ''<tr><td colspan="3" class="px-6 py-4 whitespace-nowrap text-sm text-gray-500">API returned an error. Please check your API key or a rate limit may have been exceeded.</td></tr>''])
            (losersTableBody d),
         breadthWidget := map_option
            (\<lambda>old. [Markup ''<p class="col-span-3 text-red-500">API returned an error. Please check your API key or a rate limit may have been exceeded.</p>''])
            (breadthWidget d)\<rparr>\<close>
proof -
  from assms(2) have r: "\<not> nullish response" by (rule truthy_field_not_nullish)
  from assms have e: "new_Error (js_or (field response ''Error Message'') (field response ''Note''))
      = Error note"
    by (simp add: js_or_def new_Error_string)
  have m: "message_or_default (Error api_error_text) = api_error_text"
    by (simp add: message_or_default_def api_error_text_def)
  from assms r e m show ?thesis
    by (simp add: fetchMarketData_def fetch_try_eq show_error_eq
        fetchMarketData_part0_def fetch_try_part0_eq show_error_part0_eq api_error_text_def)
qed

text \<open>The body \<open>{"Note": "rate limit exceeded"}\<close> on a page with the three elements.\<close>

theorem upstream_note_is_shown_witness:
  \<open>fetchMarketData (Inr note_response) empty_page =
     empty_page\<lparr>gainersTableBody :=
         Some [Markup ''<tr><td colspan="3">rate limit exceeded</td></tr>''],
       losersTableBody :=
         Some [Markup ''<tr><td colspan="3">rate limit exceeded</td></tr>''],
       breadthWidget := Some [Markup ''<p>rate limit exceeded</p>'']\<rparr>\<close>
  using upstream_note_is_shown [of note_response "''rate limit exceeded''" empty_page]
  by (simp add: note_response_def empty_page_def)

text \<open>
  C3 as stated fails. On the body \<open>{"Note": "rate limit exceeded"}\<close> the copy of the
  script in src/unnamed/part_000 writes its fixed text, which is not the upstream
  message; on a body with both an \<open>Error Message\<close> and a \<open>Note\<close> the script of
  src/js/script.js writes the error message, not the note; and on a body whose \<open>Note\<close>
  is the object \<open>{"toString": 1}\<close> it writes the message of the \<open>TypeError\<close> that
  \<open>new Error\<close> throws.
\<close>

theorem upstream_note_counterexample:
  \<open>gainersTableBody (fetchMarketData_part0 (Inr note_response) empty_page) =
     Some [Markup ''<tr><td colspan="3" class="px-6 py-4 whitespace-nowrap text-sm text-gray-500">API returned an error. Please check your API key or a rate limit may have been exceeded.</td></tr>'']
   \<and> gainersTableBody (fetchMarketData (Inr both_response) empty_page) =
     Some [Markup ''<tr><td colspan="3">Invalid API call.</td></tr>'']
   \<and> gainersTableBody
       (fetchMarketData (Inr (Obj [(''Note'', Obj [(''toString'', Num (Fin 1))])])) empty_page) =
     Some [Markup ''<tr><td colspan="3">Cannot convert object to primitive value</td></tr>'']\<close>
  by (simp add: fetchMarketData_part0_def fetch_try_part0_eq note_response_def
      show_error_part0_eq message_or_default_def api_error_text_def empty_page_def
      fetchMarketData_def fetch_try_eq both_response_def show_error_eq new_Error_def js_or_def
      cannot_convert_def)

subsection \<open>A body without the two arrays\<close>

text \<open>
  C4. The specification has every upstream body without an error or rate-limit field,
  in which \<open>top_gainers\<close> or \<open>top_losers\<close> is no array, end in the empty rendering. The
  JSON body \<open>null\<close> is such a body (the condition on the two arrays, which starts with
  \<open>moversData &&\<close>, is false for it), and both copies of the script end in the \<open>catch\<close>
  block for it: the read of \<open>moversData['Error Message']\<close> throws before the condition
  is reached, and the message of the \<open>TypeError\<close> is written into the three elements.
\<close>

theorem null_response_is_an_error:
  \<open>top_arrays Null = Inr None
   \<and> fetchMarketData (Inr Null) d =
     d\<lparr>gainersTableBody := map_option
          (\<lambda>old. [Markup (''<tr><td colspan="3">''
             @ message (cannot_read ''null'' ''Error Message'') @ ''</td></tr>'')])
          (gainersTableBody d),
       losersTableBody := map_option
          (\<lambda>old. [Markup (''<tr><td colspan="3">''
             @ message (cannot_read ''null'' ''Error Message'') @ ''</td></tr>'')])
          (losersTableBody d),
       breadthWidget := map_option
          (\<lambda>old. [Markup (''<p>'' @ message (cannot_read ''null'' ''Error Message'') @ ''</p>'')])
          (breadthWidget d)\<rparr>
   \<and> fetchMarketData_part0 (Inr Null) d =
       show_error_part0 (cannot_read ''null'' ''Error Message'') d\<close>
  by (simp add: fetchMarketData_def fetch_try_def API_KEY_def show_error_eq top_arrays_def
      fetchMarketData_part0_def fetch_try_part0_def)

text \<open>The breadth widget of a page with the three elements, after the body \<open>null\<close>.\<close>

theorem null_response_is_an_error_witness:
  \<open>breadthWidget (fetchMarketData (Inr Null) empty_page) =
     Some [Markup (''<p>'' @ message (cannot_read ''null'' ''Error Message'') @ ''</p>'')]\<close>
  using null_response_is_an_error [of empty_page] by (simp add: empty_page_def)

subsection \<open>A malformed argument of renderTopMovers\<close>

text \<open>
  C5, as amended. For every argument that fails the check (it is not an object whose
  \<open>gainers\<close> and \<open>losers\<close> are arrays: \<open>null\<close>, a value that is no object, an object
  in which one of the two is no array), \<open>renderTopMovers\<close> raises no exception and
  writes the placeholder \<open>Data unavailable.\<close> into each of the two table bodies the
  page has.
\<close>

theorem renderTopMovers_malformed_argument:
  assumes \<open>\<not> well_shaped moversData\<close>
  shows \<open>renderTopMovers moversData d =
     (d\<lparr>gainersTableBody :=
          map_option (\<lambda>old. [Markup ''<tr><td colspan="3">Data unavailable.</td></tr>''])
            (gainersTableBody d),
        losersTableBody :=
          map_option (\<lambda>old. [Markup ''<tr><td colspan="3">Data unavailable.</td></tr>''])
            (losersTableBody d)\<rparr>, None)\<close>
  using assms by (simp add: renderTopMovers_invalid movers_invalid_eq)

text \<open>
  The argument \<open>null\<close>, a string, and an object whose \<open>losers\<close> is missing, on a
  page that has both tables.
\<close>

theorem renderTopMovers_malformed_argument_witness:
  \<open>renderTopMovers Null empty_page =
     (empty_page\<lparr>gainersTableBody :=
          Some [Markup ''<tr><td colspan="3">Data unavailable.</td></tr>''],
        losersTableBody :=
          Some [Markup ''<tr><td colspan="3">Data unavailable.</td></tr>'']\<rparr>, None)
   \<and> renderTopMovers (Str ''movers'') empty_page = renderTopMovers Null empty_page
   \<and> renderTopMovers (Obj [(''gainers'', Arr [example_record])]) empty_page =
       renderTopMovers Null empty_page\<close>
  using renderTopMovers_malformed_argument [of Null empty_page]
    renderTopMovers_malformed_argument [of "Str ''movers''" empty_page]
    renderTopMovers_malformed_argument [of "Obj [(''gainers'', Arr [example_record])]" empty_page]
  by (simp add: empty_page_def)

text \<open>
  C5 as stated fails: the function is not total over every argument. The argument
  \<open>{gainers: [null], losers: []}\<close> passes the check, and on a page with the gainers
  table the read of \<open>item.symbol\<close> in \<open>createTableRow\<close> throws a \<open>TypeError\<close>.
\<close>

theorem renderTopMovers_null_item_throws:
  "well_shaped null_item_movers
   \<and> snd (renderTopMovers null_item_movers empty_page) =
       Some (TypeError (''Cannot read properties of null (reading '' @ [CHR 0x27] @ ''symbol''
         @ [CHR 0x27] @ '')''))"
  by (simp add: null_item_movers_def movers_object_def renderTopMovers_def render_rows_def
      append_rows_def createTableRow_def prop_string_def assign_if_present_def set_innerHTML_def
      empty_page_def cannot_read_def)

subsection \<open>The mock breadth snapshot\<close>

text \<open>
  C6. For the breadth input \<open>{advancing: 2500, declining: 500, unchanged: 100}\<close>, the
  mock snapshot of the script, the sum of the three counts is 3100, each share
  \<open>Math.round((count / total) * 100)\<close> is 81, 16 and 3, and \<open>renderMarketBreadth\<close>
  raises no exception and writes the widget, when the page has one, with \<open>81%\<close> under
  Advancing, \<open>16%\<close> under Declining and \<open>3%\<close> under Unchanged. Every run of
  \<open>fetchMarketData\<close> whose \<open>try\<close> block ends without an exception leaves the widget
  so.
\<close>

theorem mock_breadth_shares:
  \<open>breadth_total mockBreadthData = Inr (Num (Fin 3100))
   \<and> math_round (js_mul (js_div (Fin 2500) (Fin 3100)) (Fin 100)) = Fin 81
   \<and> math_round (js_mul (js_div (Fin 500) (Fin 3100)) (Fin 100)) = Fin 16
   \<and> math_round (js_mul (js_div (Fin 100) (Fin 3100)) (Fin 100)) = Fin 3
   \<and> renderMarketBreadth mockBreadthData d =
       (d\<lparr>breadthWidget := map_option (\<lambda>old.
            [Markup (''
            <div class="flex flex-col items-center">
                <p class="text-sm font-medium text-gray-500">Advancing</p>
                <span class="text-lg font-bold indicator-up">81%</span>
            </div>
            <div class="flex flex-col items-center">
                <p class="text-sm font-medium text-gray-500">Declining</p>
                <span class="text-lg font-bold indicator-down">16%</span>
            </div>
            <div class="flex flex-col items-center">
                <p class="text-sm font-medium text-gray-500">Unchanged</p>
                <span class="text-lg font-bold text-gray-600">3%</span>
            </div>
        '')])
            (breadthWidget d)\<rparr>, None)
   \<and> (snd (fetch_try response d) = None \<longrightarrow>
        breadthWidget (fetchMarketData response d) =
          breadthWidget (fst (renderMarketBreadth mockBreadthData d)))\<close>
proof -
  have "breadthWidget (fetchMarketData response d) =
      breadthWidget (fst (renderMarketBreadth mockBreadthData d))"
    if no_exception: "snd (fetch_try response d) = None"
  proof -
    from no_exception obtain d1 where d1: "fetch_try response d = (d1, None)"
      by (cases "fetch_try response d") auto
    then have "fetchMarketData response d = d1" by (simp add: fetchMarketData_def)
    with fetch_try_breadth [OF d1] show ?thesis by simp
  qed
  moreover have "breadth_total mockBreadthData = Inr (Num (Fin 3100))"
    using mock_percentages
    by (simp add: breadth_total_numbers [of _ "Fin 2500" "Fin 500" "Fin 100"] mockBreadthData_def)
  ultimately show ?thesis
    using mock_percentages by (simp add: renderMarketBreadth_mock percentage_def)
qed

text \<open>A page with the widget, and the body \<open>{}\<close>, which the script does not reject.\<close>

theorem mock_breadth_shares_witness:
  \<open>renderMarketBreadth mockBreadthData empty_page =
     (empty_page\<lparr>breadthWidget := Some
        [Markup (''
            <div class="flex flex-col items-center">
                <p class="text-sm font-medium text-gray-500">Advancing</p>
                <span class="text-lg font-bold indicator-up">81%</span>
            </div>
            <div class="flex flex-col items-center">
                <p class="text-sm font-medium text-gray-500">Declining</p>
                <span class="text-lg font-bold indicator-down">16%</span>
            </div>
            <div class="flex flex-col items-center">
                <p class="text-sm font-medium text-gray-500">Unchanged</p>
                <span class="text-lg font-bold text-gray-600">3%</span>
            </div>
        '')]\<rparr>, None)
   \<and> snd (fetch_try (Inr (Obj [])) empty_page) = None
   \<and> breadthWidget (fetchMarketData (Inr (Obj [])) empty_page) = Some
        [Markup (''
            <div class="flex flex-col items-center">
                <p class="text-sm font-medium text-gray-500">Advancing</p>
                <span class="text-lg font-bold indicator-up">81%</span>
            </div>
            <div class="flex flex-col items-center">
                <p class="text-sm font-medium text-gray-500">Declining</p>
                <span class="text-lg font-bold indicator-down">16%</span>
            </div>
            <div class="flex flex-col items-center">
                <p class="text-sm font-medium text-gray-500">Unchanged</p>
                <span class="text-lg font-bold text-gray-600">3%</span>
            </div>
        '')]\<close>
proof -
  have ok: "snd (fetch_try (Inr (Obj [])) empty_page) = None"
    by (simp add: fetch_try_eq degraded_response renderMarketBreadth_mock)
  with mock_breadth_shares [of empty_page "Inr (Obj [])"] show ?thesis
    by (simp add: empty_page_def)
qed

subsection \<open>Calling a rendering function twice\<close>



subsection \<open>A zero total\<close>

text \<open>
  C8. For every breadth input whose three counts are numbers that sum to zero,
  \<open>renderMarketBreadth\<close> raises no exception and writes no placeholder: it divides,
  and writes the widget the page has with the three percentages, each of which is not
  finite and reads \<open>NaN\<close>, \<open>Infinity\<close> or \<open>-Infinity\<close>.
\<close>

theorem zero_total_not_finite:
  assumes \<open>field b ''advancing'' = Num x\<close>
    and \<open>field b ''declining'' = Num y\<close>
    and \<open>field b ''unchanged'' = Num z\<close>
    and \<open>is_zero (js_add (js_add x y) z)\<close>
  shows \<open>renderMarketBreadth b d =
       (d\<lparr>breadthWidget := map_option (\<lambda>old.
            [Markup (''
            <div class="flex flex-col items-center">
                <p class="text-sm font-medium text-gray-500">Advancing</p>
                <span class="text-lg font-bold indicator-up">'' @ num_to_string (percentage x (js_add (js_add x y) z)) @ ''%</span>
            </div>
            <div class="flex flex-col items-center">
                <p class="text-sm font-medium text-gray-500">Declining</p>
                <span class="text-lg font-bold indicator-down">'' @ num_to_string (percentage y (js_add (js_add x y) z)) @ ''%</span>
            </div>
            <div class="flex flex-col items-center">
                <p class="text-sm font-medium text-gray-500">Unchanged</p>
                <span class="text-lg font-bold text-gray-600">'' @ num_to_string (percentage z (js_add (js_add x y) z)) @ ''%</span>
            </div>
        '')])
            (breadthWidget d)\<rparr>, None)
     \<and> \<not> is_finite (percentage x (js_add (js_add x y) z))
     \<and> \<not> is_finite (percentage y (js_add (js_add x y) z))
     \<and> \<not> is_finite (percentage z (js_add (js_add x y) z))
     \<and> num_to_string (percentage x (js_add (js_add x y) z))
          \<in> {''NaN'', ''Infinity'', ''-Infinity''}
     \<and> num_to_string (percentage y (js_add (js_add x y) z))
          \<in> {''NaN'', ''Infinity'', ''-Infinity''}
     \<and> num_to_string (percentage z (js_add (js_add x y) z))
          \<in> {''NaN'', ''Infinity'', ''-Infinity''}\<close>
  using not_finite_string [OF percentage_zero_total [OF assms(4), of x]]
    not_finite_string [OF percentage_zero_total [OF assms(4), of y]]
    not_finite_string [OF percentage_zero_total [OF assms(4), of z]]
  by (simp add: renderMarketBreadth_numbers [OF assms(1,2,3)])

text \<open>Three counts of zero: the widget shows \<open>NaN%\<close> three times.\<close>

theorem zero_total_not_finite_witness:
  \<open>is_zero (js_add (js_add (Fin 0) (Fin 0)) (Fin 0))
   \<and> renderMarketBreadth zero_breadth empty_page =
       (empty_page\<lparr>breadthWidget := Some
          [Markup (''
            <div class="flex flex-col items-center">
                <p class="text-sm font-medium text-gray-500">Advancing</p>
                <span class="text-lg font-bold indicator-up">NaN%</span>
            </div>
            <div class="flex flex-col items-center">
                <p class="text-sm font-medium text-gray-500">Declining</p>
                <span class="text-lg font-bold indicator-down">NaN%</span>
            </div>
            <div class="flex flex-col items-center">
                <p class="text-sm font-medium text-gray-500">Unchanged</p>
                <span class="text-lg font-bold text-gray-600">NaN%</span>
            </div>
        '')]\<rparr>, None)\<close>
proof -
  have t: "js_add (js_add (Fin 0) (Fin 0)) (Fin 0) = Fin 0"
    by code_simp
  have p: "percentage (Fin 0) (Fin 0) = NaN"
    by code_simp
  have "field zero_breadth ''advancing'' = Num (Fin 0)"
    and "field zero_breadth ''declining'' = Num (Fin 0)"
    and "field zero_breadth ''unchanged'' = Num (Fin 0)"
    by (simp_all add: zero_breadth_def)
  from zero_total_not_finite [OF this, of empty_page] p t show ?thesis
    by (simp add: empty_page_def)
qed

subsection \<open>A page without the elements\<close>

text \<open>
  C9. The absence of the gainers table, the losers table or the breadth widget raises
  no exception, and the elements that are there are written as on the full page: when
  \<open>renderTopMovers\<close> raises no exception on a page, it raises none on the page without
  some of the three elements and leaves the remaining ones as it leaves them on the
  page itself; without both tables it raises no exception for any argument and changes
  nothing; and the \<open>catch\<close> block of \<open>fetchMarketData\<close>, in both copies of the script,
  writes the elements that are there as it writes them on the page itself.
\<close>

theorem absent_sinks_are_skipped:
  assumes "snd (renderTopMovers moversData d) = None"
  shows "renderTopMovers moversData (without_sinks g l b d) =
       (without_sinks g l b (fst (renderTopMovers moversData d)), None)
     \<and> renderTopMovers moversData' (without_sinks True True b d) = (without_sinks True True b d, None)
     \<and> show_error e (without_sinks g l b d) = without_sinks g l b (show_error e d)
     \<and> show_error_part0 e (without_sinks g l b d) = without_sinks g l b (show_error_part0 e d)"
proof -
  have first: "renderTopMovers moversData (without_sinks g l b d) =
       (without_sinks g l b (fst (renderTopMovers moversData d)), None)"
  proof (cases "well_shaped moversData")
    case True
    with assms show ?thesis by (simp add: renderTopMovers_valid render_rows_without)
  next
    case False
    then show ?thesis by (simp add: renderTopMovers_invalid without_sinks_invalid)
  qed
  have second: "renderTopMovers moversData' (without_sinks True True b d) =
      (without_sinks True True b d, None)"
    by (cases "well_shaped moversData'")
       (simp_all add: renderTopMovers_valid renderTopMovers_invalid render_rows_def
          append_rows_def movers_invalid_def assign_if_present_def without_sinks_def)
  from first second show ?thesis by (simp add: show_error_without show_error_part0_without)
qed

text \<open>
  The example movers on a page that has the losers table only, the movers with a
  \<open>null\<close> gainer on a page without the three elements, and an error on the former.
\<close>

theorem absent_sinks_are_skipped_witness:
  \<open>renderTopMovers example_movers (without_sinks True False True empty_page) =
     (empty_page\<lparr>gainersTableBody := None,
        losersTableBody :=
          Some [Element ''tr'' [] (''
                <td class="px-6 py-4 whitespace-nowrap text-sm font-medium text-gray-900">AAA</td>
                <td class="px-6 py-4 whitespace-nowrap text-sm text-gray-500">$10.00</td>
                <td class="px-6 py-4 whitespace-nowrap text-sm price-down">5.50%</td>
            ''),
                Element ''tr'' [] (''
                <td class="px-6 py-4 whitespace-nowrap text-sm font-medium text-gray-900">AAA</td>
                <td class="px-6 py-4 whitespace-nowrap text-sm text-gray-500">$10.00</td>
                <td class="px-6 py-4 whitespace-nowrap text-sm price-down">5.50%</td>
            '')],
        breadthWidget := None\<rparr>, None)
   \<and> renderTopMovers null_item_movers (without_sinks True True True empty_page) =
     (empty_page\<lparr>gainersTableBody := None, losersTableBody := None,
        breadthWidget := None\<rparr>, None)
   \<and> show_error (Error ''x'') (without_sinks True False True empty_page) =
     empty_page\<lparr>gainersTableBody := None,
       losersTableBody := Some [Markup (''<tr><td colspan="3">x</td></tr>'')],
       breadthWidget := None\<rparr>\<close>
proof -
  from renderTopMovers_example
  have "snd (renderTopMovers example_movers empty_page) = None" by simp
  from absent_sinks_are_skipped [OF this, of True False True null_item_movers "Error ''x''"]
    renderTopMovers_example
  show ?thesis
    by (simp add: without_sinks_def empty_page_def show_error_eq)
qed

subsection \<open>An empty error field\<close>

text \<open>
  C10. The check for an upstream rejection tests the truthiness of the \<open>Error Message\<close>
  and \<open>Note\<close> fields and nothing else: a body (not \<open>null\<close>) is rejected exactly when
  one of the two is truthy. So a body in which a field is the empty string, and the
  other is no more truthy, goes on to the check of the two arrays, and when the arrays
  are missing it gets the empty rendering and the mock breadth, which raises no
  exception, not the error message; the same in both copies of the script.
\<close>

theorem falsy_error_fields_not_rejected:
  assumes "\<not> nullish response"
  shows "fetch_try (Inr response) d =
       (if truthy (field response ''Error Message'') \<or> truthy (field response ''Note'')
        then (d, Some (new_Error
               (js_or (field response ''Error Message'') (field response ''Note''))))
        else render_response response d)
     \<and> truthy (Str []) = False
     \<and> (\<not> truthy (field response ''Error Message'') \<and> \<not> truthy (field response ''Note'')
         \<and> \<not> (isArray (field response ''top_gainers'') \<and> isArray (field response ''top_losers''))
        \<longrightarrow> fetch_try (Inr response) d =
              renderMarketBreadth mockBreadthData
                (d\<lparr>gainersTableBody := map_option (\<lambda>old. []) (gainersTableBody d),
                   losersTableBody := map_option (\<lambda>old. []) (losersTableBody d)\<rparr>)
            \<and> fetchMarketData (Inr response) d =
              fst (renderMarketBreadth mockBreadthData
                (d\<lparr>gainersTableBody := map_option (\<lambda>old. []) (gainersTableBody d),
                   losersTableBody := map_option (\<lambda>old. []) (losersTableBody d)\<rparr>))
            \<and> snd (renderMarketBreadth mockBreadthData
                (d\<lparr>gainersTableBody := map_option (\<lambda>old. []) (gainersTableBody d),
                   losersTableBody := map_option (\<lambda>old. []) (losersTableBody d)\<rparr>)) = None
            \<and> fetchMarketData_part0 (Inr response) d = fetchMarketData (Inr response) d)"
  using assms
  by (auto simp: fetchMarketData_def fetch_try_eq fetchMarketData_part0_def fetch_try_part0_eq
      degraded_response renderMarketBreadth_mock)

text \<open>The body \<open>{"Note": ""}\<close> on a page with the three elements.\<close>

theorem falsy_error_fields_not_rejected_witness:
  \<open>fetchMarketData (Inr empty_note_response) empty_page =
     empty_page\<lparr>gainersTableBody := Some [], losersTableBody := Some [],
       breadthWidget := Some
         [Markup (''
            <div class="flex flex-col items-center">
                <p class="text-sm font-medium text-gray-500">Advancing</p>
                <span class="text-lg font-bold indicator-up">81%</span>
            </div>
            <div class="flex flex-col items-center">
                <p class="text-sm font-medium text-gray-500">Declining</p>
                <span class="text-lg font-bold indicator-down">16%</span>
            </div>
            <div class="flex flex-col items-center">
                <p class="text-sm font-medium text-gray-500">Unchanged</p>
                <span class="text-lg font-bold text-gray-600">3%</span>
            </div>
        '')]\<rparr>\<close>
proof -
  have "fetchMarketData (Inr empty_note_response) empty_page =
      fst (renderMarketBreadth mockBreadthData
        (empty_page\<lparr>gainersTableBody := map_option (\<lambda>old. []) (gainersTableBody empty_page),
           losersTableBody := map_option (\<lambda>old. []) (losersTableBody empty_page)\<rparr>))"
    using falsy_error_fields_not_rejected [of empty_note_response empty_page]
    by (simp add: empty_note_response_def)
  then show ?thesis
    by (simp add: renderMarketBreadth_mock empty_page_def)
qed


end
